theory Spec2Isabelle
  imports Complex_Main "HOL-Library.Word"
begin

unbundle bit_operations_syntax

section \<open>Data model of brytongo\<close>

text \<open>
  The Go package converts a parsed GPX track into the three binary files of a Bryton
  device (.smy, .track, .tinfo). The definitions below follow the final library
  version of the source (package brytongo, little-endian writers); the earlier
  version of the same file (package main, big-endian writers, the summary written as
  a whole struct) is embedded next to it under names ending in \<open>_v0\<close>.
\<close>

type_synonym byte = "8 word"

record GeoPoint =
  lat :: "32 word"
  lon :: "32 word"

record BrytonSmy =
  smyFlag :: "16 word"
  coordinateCount :: "16 word"
  bboxLatNe :: "32 word"
  bboxLatSw :: "32 word"
  bboxLonNe :: "32 word"
  bboxLonSw :: "32 word"
  totalDst :: "32 word"

type_synonym BrytonTrack = "GeoPoint list"

text \<open>
  The Go field \<open>waypointDescription\<close> is an array \<open>[32]uint8\<close>; the list that
  stands for it has 32 elements in every well-formed waypoint (\<open>wf_Waypoint\<close> below).
\<close>

record Waypoint =
  coordinateIndex :: "16 word"
  directionCode :: byte
  distance :: "16 word"
  timeSec :: "16 word"
  waypointDescription :: "byte list"

type_synonym BrytonTinfo = "Waypoint list"

record BrytonData =
  smy :: BrytonSmy
  track :: BrytonTrack
  tinfo :: BrytonTinfo

definition wf_Waypoint :: "Waypoint \<Rightarrow> bool" where
  "wf_Waypoint w = (length (waypointDescription w) = 32)"

definition smyInitFlag :: "16 word" where
  "smyInitFlag = 0x01"

definition DirectionCodeCloseLeft :: byte where "DirectionCodeCloseLeft = 0x07"
definition DirectionCodeLeft :: byte where "DirectionCodeLeft = 0x03"
definition DirectionCodeSlightLeft :: byte where "DirectionCodeSlightLeft = 0x05"
definition DirectionCodeGoAhead :: byte where "DirectionCodeGoAhead = 0x01"
definition DirectionCodeSlightRight :: byte where "DirectionCodeSlightRight = 0x04"
definition DirectionCodeRight :: byte where "DirectionCodeRight = 0x02"
definition DirectionCodeCloseRight :: byte where "DirectionCodeCloseRight = 0x06"

text \<open>The zero values of Go's \<open>var data BrytonData\<close> and \<open>var wpt Waypoint\<close>.\<close>

definition zeroSmy :: BrytonSmy where
  "zeroSmy = \<lparr>smyFlag = 0, coordinateCount = 0, bboxLatNe = 0, bboxLatSw = 0,
     bboxLonNe = 0, bboxLonSw = 0, totalDst = 0\<rparr>"

definition zeroData :: BrytonData where
  "zeroData = \<lparr>smy = zeroSmy, track = [], tinfo = []\<rparr>"

definition zeroWaypoint :: Waypoint where
  "zeroWaypoint = \<lparr>coordinateIndex = 0, directionCode = 0, distance = 0, timeSec = 0,
     waypointDescription = replicate 32 0\<rparr>"

section \<open>Errors and outcomes\<close>

datatype error =
  NotFixedSize  \<comment> \<open>binary.Write was given a value it cannot encode\<close>
  | CreateFailed  \<comment> \<open>os.Create returned an error\<close>
  | WriteFailed  \<comment> \<open>file.Write returned an error\<close>
  | ParseFailed  \<comment> \<open>gpx.ParseFile returned an error\<close>

text \<open>A Go call either panics or returns.\<close>

datatype 'a outcome = Panic error | Return 'a

section \<open>encoding/binary\<close>

datatype ByteOrder = LittleEndian | BigEndian

text \<open>
  The values the source hands to \<open>binary.Write\<close>, by their Go type. \<open>PlainInt\<close>
  stands for a value that has no fixed size (Go's \<open>int\<close>), which the writer rejects
  with an error; the exporters never build one.
\<close>

datatype GoValue =
  Int16 "16 word"
  | Uint16 "16 word"
  | Uint8 byte
  | Int32 "32 word"
  | Uint64 "64 word"
  | ByteArray "byte list"
  | SmyStruct BrytonSmy
  | PlainInt int

definition putUint16LE :: "16 word \<Rightarrow> byte list" where
  "putUint16LE v = [ucast v, ucast (drop_bit 8 v)]"

definition putUint32LE :: "32 word \<Rightarrow> byte list" where
  "putUint32LE v = [ucast v, ucast (drop_bit 8 v), ucast (drop_bit 16 v), ucast (drop_bit 24 v)]"

definition putUint64LE :: "64 word \<Rightarrow> byte list" where
  "putUint64LE v = [ucast v, ucast (drop_bit 8 v), ucast (drop_bit 16 v), ucast (drop_bit 24 v),
     ucast (drop_bit 32 v), ucast (drop_bit 40 v), ucast (drop_bit 48 v), ucast (drop_bit 56 v)]"

definition putUint16BE :: "16 word \<Rightarrow> byte list" where
  "putUint16BE v = [ucast (drop_bit 8 v), ucast v]"

definition putUint32BE :: "32 word \<Rightarrow> byte list" where
  "putUint32BE v = [ucast (drop_bit 24 v), ucast (drop_bit 16 v), ucast (drop_bit 8 v), ucast v]"

definition putUint64BE :: "64 word \<Rightarrow> byte list" where
  "putUint64BE v = [ucast (drop_bit 56 v), ucast (drop_bit 48 v), ucast (drop_bit 40 v),
     ucast (drop_bit 32 v), ucast (drop_bit 24 v), ucast (drop_bit 16 v), ucast (drop_bit 8 v),
     ucast v]"

definition putUint16 :: "ByteOrder \<Rightarrow> 16 word \<Rightarrow> byte list" where
  "putUint16 order v = (case order of LittleEndian \<Rightarrow> putUint16LE v | BigEndian \<Rightarrow> putUint16BE v)"

definition putUint32 :: "ByteOrder \<Rightarrow> 32 word \<Rightarrow> byte list" where
  "putUint32 order v = (case order of LittleEndian \<Rightarrow> putUint32LE v | BigEndian \<Rightarrow> putUint32BE v)"

definition putUint64 :: "ByteOrder \<Rightarrow> 64 word \<Rightarrow> byte list" where
  "putUint64 order v = (case order of LittleEndian \<Rightarrow> putUint64LE v | BigEndian \<Rightarrow> putUint64BE v)"

text \<open>
  The bytes of one value: integers in the given byte order, a byte array as it is, a
  struct field by field in declaration order (unexported fields included, as the
  reflection-based writer does).
\<close>

fun encodeValue :: "ByteOrder \<Rightarrow> GoValue \<Rightarrow> byte list option" where
  "encodeValue order (Int16 v) = Some (putUint16 order v)"
| "encodeValue order (Uint16 v) = Some (putUint16 order v)"
| "encodeValue order (Uint8 v) = Some [v]"
| "encodeValue order (Int32 v) = Some (putUint32 order v)"
| "encodeValue order (Uint64 v) = Some (putUint64 order v)"
| "encodeValue order (ByteArray bs) = Some bs"
| "encodeValue order (SmyStruct s) = Some (putUint16 order (smyFlag s) @
     putUint16 order (coordinateCount s) @ putUint32 order (bboxLatNe s) @
     putUint32 order (bboxLatSw s) @ putUint32 order (bboxLonNe s) @
     putUint32 order (bboxLonSw s) @ putUint32 order (totalDst s))"
| "encodeValue order (PlainInt i) = None"

text \<open>\<open>binary.Write(&buf, order, data)\<close> on a \<open>bytes.Buffer\<close>: the buffer grows by the
  encoding, or the call returns an error and the buffer is as before.\<close>

definition binaryWrite :: "byte list \<Rightarrow> ByteOrder \<Rightarrow> GoValue \<Rightarrow> error + byte list" where
  "binaryWrite buf order v =
     (case encodeValue order v of None \<Rightarrow> Inl NotFixedSize | Some bs \<Rightarrow> Inr (buf @ bs))"

text \<open>The loop \<open>for _, entry := range layout { err = binary.Write(...); if err != nil ... }\<close>:
  it stops at the first error.\<close>

fun writeLayout :: "ByteOrder \<Rightarrow> byte list \<Rightarrow> GoValue list \<Rightarrow> error + byte list" where
  "writeLayout order buf [] = Inr buf"
| "writeLayout order buf (entry # rest) =
     (case binaryWrite buf order entry of
        Inl err \<Rightarrow> Inl err
      | Inr buf' \<Rightarrow> writeLayout order buf' rest)"

section \<open>The file system seen by storeToFile\<close>

text \<open>
  \<open>os.Create\<close> fails on the paths in \<open>createFails\<close> and otherwise truncates the file.
  \<open>file.Write\<close> stores at most \<open>writeLimit\<close> bytes of the buffer at that path; as the
  Go library documents, it returns an error exactly when it stored fewer bytes than it
  was given.
\<close>

record os =
  files :: "string \<Rightarrow> byte list option"
  createFails :: "string \<Rightarrow> bool"
  writeLimit :: "string \<Rightarrow> nat option"

definition osCreate :: "os \<Rightarrow> string \<Rightarrow> error + os" where
  "osCreate w name =
     (if createFails w name then Inl CreateFailed
      else Inr (w\<lparr>files := (files w)(name \<mapsto> [])\<rparr>))"

definition fileWrite :: "os \<Rightarrow> string \<Rightarrow> byte list \<Rightarrow> os \<times> nat \<times> error option" where
  "fileWrite w name b =
     (let n = (case writeLimit w name of None \<Rightarrow> length b | Some k \<Rightarrow> min k (length b))
      in (w\<lparr>files := (files w)(name \<mapsto> take n b)\<rparr>, n,
          if n < length b then Some WriteFailed else None))"

definition storeToFile :: "byte list \<Rightarrow> string \<Rightarrow> os \<Rightarrow> error option \<times> os" where
  "storeToFile buf outFileName w =
     (case osCreate w outFileName of
        Inl err \<Rightarrow> (Some err, w)
      | Inr w1 \<Rightarrow>
          (case fileWrite w1 outFileName buf of
             (w2, num, Some err) \<Rightarrow> (Some err, w2)
           | (w2, num, None) \<Rightarrow> (None, w2)))"

text \<open>\<open>strings.Split(in, ".")[0] + extension\<close>: the part before the first period.\<close>

definition adjustFilename :: "string \<Rightarrow> string \<Rightarrow> string" where
  "adjustFilename inp extension = takeWhile (\<lambda>c. c \<noteq> CHR ''.'') inp @ extension"

section \<open>The exporters\<close>

definition smyLayout :: "BrytonSmy \<Rightarrow> GoValue list" where
  "smyLayout s = [Int16 0x01, Int16 (coordinateCount s), Int32 (bboxLatNe s),
     Int32 (bboxLatSw s), Int32 (bboxLonNe s), Int32 (bboxLonSw s), Int32 (totalDst s)]"

definition BrytonSmy_Export :: "BrytonSmy \<Rightarrow> string \<Rightarrow> os \<Rightarrow> (error option \<times> os) outcome" where
  "BrytonSmy_Export s outFileName w =
     (case writeLayout LittleEndian [] (smyLayout s) of
        Inl err \<Rightarrow> Panic err
      | Inr binaryBuffer \<Rightarrow> Return (storeToFile binaryBuffer (adjustFilename outFileName ''.smy'') w))"

text \<open>The earlier version: one \<open>binary.Write(&binaryBuffer, binary.BigEndian, s)\<close> of the
  whole struct, whose first field is \<open>smyFlag\<close>.\<close>

definition BrytonSmy_Export_v0 :: "BrytonSmy \<Rightarrow> string \<Rightarrow> os \<Rightarrow> (error option \<times> os) outcome" where
  "BrytonSmy_Export_v0 s outFileName w =
     (case binaryWrite [] BigEndian (SmyStruct s) of
        Inl err \<Rightarrow> Panic err
      | Inr binaryBuffer \<Rightarrow> Return (storeToFile binaryBuffer (adjustFilename outFileName ''.smy'') w))"

definition trackLayout :: "GeoPoint \<Rightarrow> GoValue list" where
  "trackLayout trackEntry = [Int32 (lat trackEntry), Int32 (lon trackEntry), Uint64 0x00]"

fun trackBuffer :: "ByteOrder \<Rightarrow> byte list \<Rightarrow> BrytonTrack \<Rightarrow> error + byte list" where
  "trackBuffer order buf [] = Inr buf"
| "trackBuffer order buf (trackEntry # rest) =
     (case writeLayout order buf (trackLayout trackEntry) of
        Inl err \<Rightarrow> Inl err
      | Inr buf' \<Rightarrow> trackBuffer order buf' rest)"

definition BrytonTrack_Export :: "BrytonTrack \<Rightarrow> string \<Rightarrow> os \<Rightarrow> (error option \<times> os) outcome" where
  "BrytonTrack_Export t outFileName w =
     (case trackBuffer LittleEndian [] t of
        Inl err \<Rightarrow> Panic err
      | Inr binaryBuffer \<Rightarrow> Return (storeToFile binaryBuffer (adjustFilename outFileName ''.track'') w))"

definition BrytonTrack_Export_v0 :: "BrytonTrack \<Rightarrow> string \<Rightarrow> os \<Rightarrow> (error option \<times> os) outcome" where
  "BrytonTrack_Export_v0 t outFileName w =
     (case trackBuffer BigEndian [] t of
        Inl err \<Rightarrow> Panic err
      | Inr binaryBuffer \<Rightarrow> Return (storeToFile binaryBuffer (adjustFilename outFileName ''.track'') w))"

text \<open>\<open>getCoordinateIndex\<close>: the loop index is a Go \<open>int\<close>, and \<open>uint16(i)\<close> keeps its low
  16 bits.\<close>

fun scanFrom :: "nat \<Rightarrow> BrytonTrack \<Rightarrow> GeoPoint \<Rightarrow> 16 word" where
  "scanFrom i [] point = 0"
| "scanFrom i (entry # rest) point =
     (if entry = point then word_of_nat i else scanFrom (Suc i) rest point)"

definition getCoordinateIndex :: "BrytonTrack \<Rightarrow> GeoPoint \<Rightarrow> 16 word" where
  "getCoordinateIndex t point = scanFrom 0 t point"

definition tinfoLayout :: "Waypoint \<Rightarrow> GoValue list" where
  "tinfoLayout tinfoEntry = [Uint16 (coordinateIndex tinfoEntry), Uint8 (directionCode tinfoEntry),
     Uint8 0x00, Uint16 (distance tinfoEntry), Uint16 0x00, Uint16 (timeSec tinfoEntry),
     Uint16 0x00, ByteArray (waypointDescription tinfoEntry)]"

fun tinfoBuffer :: "ByteOrder \<Rightarrow> byte list \<Rightarrow> BrytonTinfo \<Rightarrow> error + byte list" where
  "tinfoBuffer order buf [] = Inr buf"
| "tinfoBuffer order buf (tinfoEntry # rest) =
     (case writeLayout order buf (tinfoLayout tinfoEntry) of
        Inl err \<Rightarrow> Inl err
      | Inr buf' \<Rightarrow> tinfoBuffer order buf' rest)"

text \<open>Unlike the other two, this exporter returns the writer's error instead of
  panicking.\<close>

definition BrytonTinfo_Export :: "BrytonTinfo \<Rightarrow> string \<Rightarrow> os \<Rightarrow> (error option \<times> os) outcome" where
  "BrytonTinfo_Export t outFileName w =
     (case tinfoBuffer LittleEndian [] t of
        Inl err \<Rightarrow> Return (Some err, w)
      | Inr binaryBuffer \<Rightarrow> Return (storeToFile binaryBuffer (adjustFilename outFileName ''.tinfo'') w))"

text \<open>\<open>BrytonData.Export\<close> has no result: it calls the three exporters in turn and drops
  what each returns. Only a panic ends it early.\<close>

definition BrytonData_Export :: "BrytonData \<Rightarrow> string \<Rightarrow> os \<Rightarrow> os outcome" where
  "BrytonData_Export d outFileName w =
     (case BrytonSmy_Export (smy d) outFileName w of
        Panic err \<Rightarrow> Panic err
      | Return (e1, w1) \<Rightarrow>
          (case BrytonTrack_Export (track d) outFileName w1 of
             Panic err \<Rightarrow> Panic err
           | Return (e2, w2) \<Rightarrow>
               (case BrytonTinfo_Export (tinfo d) outFileName w2 of
                  Panic err \<Rightarrow> Panic err
                | Return (e3, w3) \<Rightarrow> Return w3)))"

section \<open>float64 and the fixed-point coordinates\<close>

text \<open>
  A finite binary64 number is kept as an integer mantissa and a binary exponent:
  \<open>Float64 m e\<close> is the number \<open>m * 2 ^ e\<close>. Every finite \<open>float64\<close> has such a
  form with \<open>\<bar>m\<bar> < 2 ^ 53\<close> and \<open>- 1074 \<le> e\<close>. Infinities and NaN are not
  represented: no latitude, longitude or product of one with a million is one.
\<close>

datatype float64 = Float64 (mantissa: int) (exponent: int)

definition valof :: "float64 \<Rightarrow> real" where
  "valof x = of_int (mantissa x) * 2 powi (exponent x)"

function bitLength :: "int \<Rightarrow> nat" where
  "bitLength n = (if n \<le> 0 then 0 else Suc (bitLength (n div 2)))"
  by pat_completeness auto
termination
  by (relation "measure nat") auto

declare bitLength.simps [simp del]

text \<open>\<open>roundShift a k\<close>: the integer nearest to \<open>a / 2 ^ k\<close>, a tie going to the even
  one (the rounding mode of Go's arithmetic).\<close>

definition roundShift :: "int \<Rightarrow> nat \<Rightarrow> int" where
  "roundShift a k =
     (let q = a div 2 ^ k; r = a mod 2 ^ k
      in if 2 * r < 2 ^ k then q
         else if 2 ^ k < 2 * r then q + 1
         else if even q then q else q + 1)"

text \<open>The binary64 number nearest to the exact number \<open>m * 2 ^ e\<close>: at most 53
  significant bits, and no bit below \<open>2 ^ - 1074\<close>.\<close>

definition roundToFloat64 :: "int \<Rightarrow> int \<Rightarrow> float64" where
  "roundToFloat64 m e =
     (let k = max (int (bitLength \<bar>m\<bar>) - 53) (- 1074 - e)
      in if k \<le> 0 then Float64 m e
         else Float64 (sgn m * roundShift \<bar>m\<bar> (nat k)) (e + k))"

text \<open>Go's \<open>x * y\<close> on \<open>float64\<close>: the exact product, rounded once.\<close>

definition fmul :: "float64 \<Rightarrow> float64 \<Rightarrow> float64" where
  "fmul x y = roundToFloat64 (mantissa x * mantissa y) (exponent x + exponent y)"

text \<open>The \<open>float64\<close> that a decimal literal \<open>n / 10 ^ k\<close> denotes, such as
  \<open>51.507351\<close> = \<open>51507351 / 10 ^ 6\<close>: the quotient is computed to more than 56 bits,
  with a last bit that records whether anything was cut off, and then rounded.\<close>

definition float64OfDecimal :: "int \<Rightarrow> nat \<Rightarrow> float64" where
  "float64OfDecimal n k =
     (let q = 10 ^ k;
          s = 56 + bitLength q;
          h = (\<bar>n\<bar> * 2 ^ s) div q;
          sticky = (if (\<bar>n\<bar> * 2 ^ s) mod q = 0 then 0 else 1)
      in roundToFloat64 (sgn n * (2 * h + sticky)) (- int s - 1))"

text \<open>Go's conversion \<open>int32(f)\<close> discards the fraction. Where the integer does not fit
  into 32 bits Go leaves the result to the implementation; the model keeps the low 32
  bits there, and no theorem below relies on it.\<close>

definition truncToInt :: "float64 \<Rightarrow> int" where
  "truncToInt x =
     (if 0 \<le> exponent x then mantissa x * 2 ^ nat (exponent x)
      else sgn (mantissa x) * (\<bar>mantissa x\<bar> div 2 ^ nat (- exponent x)))"

definition toInt32 :: "float64 \<Rightarrow> 32 word" where
  "toInt32 x = word_of_int (truncToInt x)"

definition adjustGeoCoordinates :: "float64 \<Rightarrow> 32 word" where
  "adjustGeoCoordinates geo = toInt32 (fmul geo (Float64 1000000 0))"

text \<open>Truncation toward zero of a real number, as the specification words it.\<close>

definition truncTowardZero :: "real \<Rightarrow> int" where
  "truncTowardZero x = (if x < 0 then - \<lfloor>- x\<rfloor> else \<lfloor>x\<rfloor>)"

section \<open>Direction codes\<close>

text \<open>
  \<open>strings.ToLower\<close> belongs to Go's library and lower-cases every Unicode letter; the
  importer takes it as a parameter \<open>ToLower\<close>. What the library does on a string of
  ASCII bytes is \<open>asciiToLower\<close>: the letters A to Z become a to z and every other
  byte stays.
\<close>

definition asciiToLowerChar :: "char \<Rightarrow> char" where
  "asciiToLowerChar c =
     (let n = (of_char c :: nat) in if 65 \<le> n \<and> n \<le> 90 then char_of (n + 32) else c)"

definition asciiToLower :: "string \<Rightarrow> string" where
  "asciiToLower s = map asciiToLowerChar s"

definition isASCII :: "string \<Rightarrow> bool" where
  "isASCII s = list_all (\<lambda>c. (of_char c :: nat) < 128) s"

text \<open>Two bytes that are equal, or the upper-case and the lower-case form of the same
  ASCII letter.\<close>

definition sameLetter :: "char \<Rightarrow> char \<Rightarrow> bool" where
  "sameLetter c c' =
     (c = c' \<or>
      (65 \<le> (of_char c :: nat) \<and> (of_char c :: nat) \<le> 90 \<and> (of_char c' :: nat) = of_char c + 32) \<or>
      (65 \<le> (of_char c' :: nat) \<and> (of_char c' :: nat) \<le> 90 \<and> (of_char c :: nat) = of_char c' + 32))"

definition convertDirectionCode :: "string \<Rightarrow> byte" where
  "convertDirectionCode gpxDirCode =
     (if gpxDirCode = ''tshl'' then DirectionCodeCloseLeft
      else if gpxDirCode = ''left'' then DirectionCodeLeft
      else if gpxDirCode = ''tsll'' then DirectionCodeSlightLeft
      else if gpxDirCode = ''straight'' then DirectionCodeGoAhead
      else if gpxDirCode = ''tslr'' then DirectionCodeSlightRight
      else if gpxDirCode = ''right'' then DirectionCodeRight
      else if gpxDirCode = ''tshr'' then DirectionCodeCloseRight
      else DirectionCodeGoAhead)"

section \<open>The parsed GPX file\<close>

text \<open>
  The types of the GPX library the importer reads: a file has tracks, a track has
  segments, a segment has points; waypoints are points with a name and a symbol.
  \<open>Bounds\<close> and \<open>Length3D\<close> hold what the library's methods of those names return
  for the file.
\<close>

record GPXPoint =
  Latitude :: float64
  Longitude :: float64
  Name :: string
  Symbol :: string

record GPXTrackSegment =
  Points :: "GPXPoint list"

record GPXTrack =
  Segments :: "GPXTrackSegment list"

record GpxBounds =
  MinLatitude :: float64
  MaxLatitude :: float64
  MinLongitude :: float64
  MaxLongitude :: float64

record GPX =
  Tracks :: "GPXTrack list"
  Waypoints :: "GPXPoint list"
  Bounds :: GpxBounds
  Length3D :: float64

text \<open>Modelled from the spec: the library method \<open>GetTrackPointsNo\<close> is not part of the
  repository; it counts the points of all segments of all tracks.\<close>

definition GetTrackPointsNo :: "GPX \<Rightarrow> nat" where
  "GetTrackPointsNo g =
     sum_list (map (\<lambda>t. sum_list (map (\<lambda>s. length (Points s)) (Segments t))) (Tracks g))"

section \<open>ImportGpx\<close>

definition toGeoPoint :: "GPXPoint \<Rightarrow> GeoPoint" where
  "toGeoPoint p = \<lparr>lat = adjustGeoCoordinates (Latitude p), lon = adjustGeoCoordinates (Longitude p)\<rparr>"

text \<open>The points the track loop ranges over: \<open>Tracks[0].Segments[0].Points\<close> when both
  exist, nothing otherwise.\<close>

definition firstSegmentPoints :: "GPX \<Rightarrow> GPXPoint list" where
  "firstSegmentPoints g =
     (case Tracks g of
        [] \<Rightarrow> []
      | t0 # _ \<Rightarrow> (case Segments t0 of [] \<Rightarrow> [] | s0 # _ \<Rightarrow> Points s0))"

fun appendTrackPoints :: "BrytonTrack \<Rightarrow> GPXPoint list \<Rightarrow> BrytonTrack" where
  "appendTrackPoints t [] = t"
| "appendTrackPoints t (p # ps) = appendTrackPoints (t @ [toGeoPoint p]) ps"

text \<open>Go's \<open>copy(dst, src)\<close>: as many bytes as both hold.\<close>

definition copyBytes :: "byte list \<Rightarrow> byte list \<Rightarrow> byte list" where
  "copyBytes dst src = (let n = min (length dst) (length src) in take n src @ drop n dst)"

definition bytesOf :: "string \<Rightarrow> byte list" where
  "bytesOf s = map of_char s"

definition importWaypoint :: "(string \<Rightarrow> string) \<Rightarrow> BrytonTrack \<Rightarrow> GPXPoint \<Rightarrow> Waypoint" where
  "importWaypoint ToLower t w =
     zeroWaypoint\<lparr>
       coordinateIndex := getCoordinateIndex t (toGeoPoint w),
       directionCode := convertDirectionCode (ToLower (Symbol w)),
       distance := 0,
       timeSec := 0,
       waypointDescription := copyBytes (waypointDescription zeroWaypoint) (bytesOf (Name w))\<rparr>"

fun appendWaypoints ::
  "(string \<Rightarrow> string) \<Rightarrow> BrytonTrack \<Rightarrow> BrytonTinfo \<Rightarrow> GPXPoint list \<Rightarrow> BrytonTinfo" where
  "appendWaypoints ToLower t ti [] = ti"
| "appendWaypoints ToLower t ti (w # ws) =
     appendWaypoints ToLower t (ti @ [importWaypoint ToLower t w]) ws"

text \<open>\<open>ToLower\<close> is \<open>strings.ToLower\<close> and \<open>parseFile\<close> is \<open>gpx.ParseFile\<close>. The method writes to the receiver \<open>d\<close>; the model
  returns the error and the receiver as it is afterwards.\<close>

definition ImportGpx ::
  "(string \<Rightarrow> string) \<Rightarrow> (string \<Rightarrow> error + GPX) \<Rightarrow> BrytonData \<Rightarrow> string \<Rightarrow>
     error option \<times> BrytonData" where
  "ImportGpx ToLower parseFile d gpxFileName =
     (case parseFile gpxFileName of
        Inl err \<Rightarrow> (Some err, d)
      | Inr gpxData \<Rightarrow>
          (let s1 = (smy d)\<lparr>coordinateCount := word_of_nat (GetTrackPointsNo gpxData)\<rparr>;
               s2 = s1\<lparr>totalDst := toInt32 (Length3D gpxData)\<rparr>;
               s3 = s2\<lparr>bboxLatNe := adjustGeoCoordinates (MaxLatitude (Bounds gpxData))\<rparr>;
               s4 = s3\<lparr>bboxLonNe := adjustGeoCoordinates (MaxLongitude (Bounds gpxData))\<rparr>;
               s5 = s4\<lparr>bboxLatSw := adjustGeoCoordinates (MinLatitude (Bounds gpxData))\<rparr>;
               s6 = s5\<lparr>bboxLonSw := adjustGeoCoordinates (MinLongitude (Bounds gpxData))\<rparr>;
               t1 = appendTrackPoints (track d) (firstSegmentPoints gpxData);
               ti1 = appendWaypoints ToLower t1 (tinfo d) (Waypoints gpxData)
           in (None, d\<lparr>smy := s6, track := t1, tinfo := ti1\<rparr>)))"

text \<open>The program of the README: import, and export only when the import returned no
  error.\<close>

definition readmeMain ::
  "(string \<Rightarrow> string) \<Rightarrow> (string \<Rightarrow> error + GPX) \<Rightarrow> string \<Rightarrow> string \<Rightarrow> os \<Rightarrow> os outcome" where
  "readmeMain ToLower parseFile inFileName outFileName w =
     (case ImportGpx ToLower parseFile zeroData inFileName of
        (Some err, d) \<Rightarrow> Return w
      | (None, d) \<Rightarrow> BrytonData_Export d outFileName w)"

section \<open>Reading a track file back\<close>

text \<open>\<open>binary.LittleEndian.Uint32\<close>.\<close>

definition uint32LE :: "byte list \<Rightarrow> 32 word" where
  "uint32LE b = ucast (b ! 0) OR push_bit 8 (ucast (b ! 1)) OR push_bit 16 (ucast (b ! 2)) OR
     push_bit 24 (ucast (b ! 3))"

text \<open>Modelled from the spec: the repository has no reader of .track files; this is the
  decoder the specification's round trip speaks of, for the layout it gives: records
  of 16 bytes, latitude and longitude as little-endian 32-bit integers, 8 reserved
  bytes that are skipped. It stops where fewer than 16 bytes are left.\<close>

function decodeTrack :: "byte list \<Rightarrow> GeoPoint list" where
  "decodeTrack bs =
     (if length bs < 16 then []
      else \<lparr>lat = uint32LE (take 4 bs), lon = uint32LE (take 4 (drop 4 bs))\<rparr> #
           decodeTrack (drop 16 bs))"
  by pat_completeness auto
termination
  by (relation "measure length") auto

declare decodeTrack.simps [simp del]

section \<open>Auxiliary notions for the statements\<close>

text \<open>The segments of a GPX file other than the first segment of the first track.\<close>

definition otherSegments :: "GPX \<Rightarrow> GPXTrackSegment list" where
  "otherSegments g =
     (case Tracks g of
        [] \<Rightarrow> []
      | t0 # ts \<Rightarrow> (case Segments t0 of [] \<Rightarrow> [] | s0 # ss \<Rightarrow> ss) @ concat (map Segments ts))"

text \<open>An empty file system in which every create and every write succeeds.\<close>

definition workingOs :: os where
  "workingOs = \<lparr>files = Map.empty, createFails = (\<lambda>n. False), writeLimit = (\<lambda>n. None)\<rparr>"

text \<open>Example inputs: a track point without name and symbol, and a GPX file with the
  given tracks, no waypoints and some bounds.\<close>

definition gpxPoint :: "float64 \<Rightarrow> float64 \<Rightarrow> GPXPoint" where
  "gpxPoint la lo = \<lparr>Latitude = la, Longitude = lo, Name = [], Symbol = []\<rparr>"

definition gpxFile :: "GPXTrack list \<Rightarrow> GPX" where
  "gpxFile ts = \<lparr>Tracks = ts, Waypoints = [],
     Bounds = \<lparr>MinLatitude = Float64 0 0, MaxLatitude = Float64 3 0,
       MinLongitude = Float64 0 0, MaxLongitude = Float64 3 0\<rparr>,
     Length3D = Float64 0 0\<rparr>"

section \<open>Bytes of the integers\<close>

lemma length_putUint16LE: "length (putUint16LE v) = 2"
  by (simp add: putUint16LE_def)

lemma length_putUint32LE: "length (putUint32LE v) = 4"
  by (simp add: putUint32LE_def)

lemma length_putUint16 [simp]: "length (putUint16 order v) = 2"
  by (cases order) (simp_all add: putUint16_def putUint16LE_def putUint16BE_def)

lemma length_putUint32 [simp]: "length (putUint32 order v) = 4"
  by (cases order) (simp_all add: putUint32_def putUint32LE_def putUint32BE_def)

lemma length_putUint64 [simp]: "length (putUint64 order v) = 8"
  by (cases order) (simp_all add: putUint64_def putUint64LE_def putUint64BE_def)

lemma uint32LE_putUint32LE: "uint32LE (putUint32LE v) = v"
  unfolding uint32LE_def putUint32LE_def
  apply simp
  apply (rule bit_word_eqI)
  apply (auto simp add: bit_simps not_less)
  subgoal for n by (cases "24 \<le> n") simp_all
  done

section \<open>Writing a file\<close>

lemma storeToFile_ok:
  "\<not> createFails w name \<Longrightarrow> writeLimit w name = None \<Longrightarrow>
   storeToFile buf name w = (None, w\<lparr>files := (files w)(name \<mapsto> buf)\<rparr>)"
  by (simp add: storeToFile_def osCreate_def fileWrite_def)

section \<open>The direction codes\<close>

lemmas DirectionCode_defs = DirectionCodeCloseLeft_def DirectionCodeLeft_def
  DirectionCodeSlightLeft_def DirectionCodeGoAhead_def DirectionCodeSlightRight_def
  DirectionCodeRight_def DirectionCodeCloseRight_def

lemma directionCode_importWaypoint:
  "directionCode (importWaypoint lower t w) = convertDirectionCode (lower (Symbol w))"
  by (simp add: importWaypoint_def)

lemma asciiToLowerChar_sameLetter:
  assumes "sameLetter c c'"
  shows "asciiToLowerChar c = asciiToLowerChar c'"
proof -
  have up: "asciiToLowerChar a = asciiToLowerChar b"
    if "65 \<le> (of_char a :: nat)" "(of_char a :: nat) \<le> 90" "(of_char b :: nat) = of_char a + 32"
    for a b
  proof -
    have "asciiToLowerChar a = char_of (of_char a + 32 :: nat)"
      using that by (simp add: asciiToLowerChar_def)
    also have "\<dots> = char_of (of_char b :: nat)" using that by simp
    also have "\<dots> = b" by simp
    also have "b = asciiToLowerChar b" using that by (simp add: asciiToLowerChar_def)
    finally show ?thesis .
  qed
  from assms consider "c = c'"
    | "65 \<le> (of_char c :: nat)" "(of_char c :: nat) \<le> 90" "(of_char c' :: nat) = of_char c + 32"
    | "65 \<le> (of_char c' :: nat)" "(of_char c' :: nat) \<le> 90" "(of_char c :: nat) = of_char c' + 32"
    unfolding sameLetter_def by blast
  then show ?thesis
  proof cases
    case 1
    then show ?thesis by simp
  next
    case 2
    then show ?thesis by (rule up)
  next
    case 3
    then show ?thesis using up [of c' c] by simp
  qed
qed

lemma asciiToLower_sameLetter:
  "list_all2 sameLetter s s' \<Longrightarrow> asciiToLower s = asciiToLower s'"
  unfolding asciiToLower_def
  by (induction rule: list_all2_induct) (simp_all add: asciiToLowerChar_sameLetter)

text \<open>
  Claim C2. The direction code of a waypoint is looked up under the lower-cased symbol:
  tshl gives 0x07, left 0x03, tsll 0x05, straight 0x01, tslr 0x04, right 0x02,
  tshr 0x06, and every other string the default 0x01; the lookup is total (there is no
  error result). This holds whatever \<open>strings.ToLower\<close> returns. With the library's
  lower-casing of ASCII strings the lookup is case-insensitive: two ASCII symbols that
  differ only in the case of their letters get the same code, the code of an ASCII
  symbol is the table entry of its lower-cased form, \<open>TSHL\<close> gives 0x07 and
  \<open>unknown-marker\<close> gives 0x01.
\<close>

theorem convertDirectionCode_table:
  "directionCode (importWaypoint lower t w) =
     (if lower (Symbol w) = ''tshl'' then 0x07
      else if lower (Symbol w) = ''left'' then 0x03
      else if lower (Symbol w) = ''tsll'' then 0x05
      else if lower (Symbol w) = ''straight'' then 0x01
      else if lower (Symbol w) = ''tslr'' then 0x04
      else if lower (Symbol w) = ''right'' then 0x02
      else if lower (Symbol w) = ''tshr'' then 0x06
      else 0x01) \<and>
   ((\<forall>x. isASCII x \<longrightarrow> lower x = asciiToLower x) \<longrightarrow>
      (isASCII s \<and> isASCII s' \<and> list_all2 sameLetter s s' \<longrightarrow>
         directionCode (importWaypoint lower t (w\<lparr>Symbol := s\<rparr>)) =
         directionCode (importWaypoint lower t (w\<lparr>Symbol := s'\<rparr>))) \<and>
      (isASCII s \<longrightarrow>
         directionCode (importWaypoint lower t (w\<lparr>Symbol := s\<rparr>)) =
           (if asciiToLower s = ''tshl'' then 0x07
            else if asciiToLower s = ''left'' then 0x03
            else if asciiToLower s = ''tsll'' then 0x05
            else if asciiToLower s = ''straight'' then 0x01
            else if asciiToLower s = ''tslr'' then 0x04
            else if asciiToLower s = ''right'' then 0x02
            else if asciiToLower s = ''tshr'' then 0x06
            else 0x01)) \<and>
      directionCode (importWaypoint lower t (w\<lparr>Symbol := ''TSHL''\<rparr>)) = 0x07 \<and>
      directionCode (importWaypoint lower t (w\<lparr>Symbol := ''unknown-marker''\<rparr>)) = 0x01)"
proof (intro conjI impI)
  show "directionCode (importWaypoint lower t w) =
     (if lower (Symbol w) = ''tshl'' then 0x07
      else if lower (Symbol w) = ''left'' then 0x03
      else if lower (Symbol w) = ''tsll'' then 0x05
      else if lower (Symbol w) = ''straight'' then 0x01
      else if lower (Symbol w) = ''tslr'' then 0x04
      else if lower (Symbol w) = ''right'' then 0x02
      else if lower (Symbol w) = ''tshr'' then 0x06
      else 0x01)"
    by (simp add: directionCode_importWaypoint convertDirectionCode_def DirectionCode_defs)
next
  assume lib: "\<forall>x. isASCII x \<longrightarrow> lower x = asciiToLower x"
    and "isASCII s \<and> isASCII s' \<and> list_all2 sameLetter s s'"
  then have "lower s = asciiToLower s" "lower s' = asciiToLower s'"
      "asciiToLower s = asciiToLower s'"
    by (simp_all add: asciiToLower_sameLetter)
  then show "directionCode (importWaypoint lower t (w\<lparr>Symbol := s\<rparr>)) =
         directionCode (importWaypoint lower t (w\<lparr>Symbol := s'\<rparr>))"
    by (simp add: directionCode_importWaypoint)
next
  assume lib: "\<forall>x. isASCII x \<longrightarrow> lower x = asciiToLower x" and "isASCII s"
  then have "lower s = asciiToLower s" by simp
  then show "directionCode (importWaypoint lower t (w\<lparr>Symbol := s\<rparr>)) =
           (if asciiToLower s = ''tshl'' then 0x07
            else if asciiToLower s = ''left'' then 0x03
            else if asciiToLower s = ''tsll'' then 0x05
            else if asciiToLower s = ''straight'' then 0x01
            else if asciiToLower s = ''tslr'' then 0x04
            else if asciiToLower s = ''right'' then 0x02
            else if asciiToLower s = ''tshr'' then 0x06
            else 0x01)"
    by (simp add: directionCode_importWaypoint convertDirectionCode_def DirectionCode_defs)
next
  assume lib: "\<forall>x. isASCII x \<longrightarrow> lower x = asciiToLower x"
  have "isASCII ''TSHL''" by code_simp
  with lib have "lower ''TSHL'' = asciiToLower ''TSHL''" by blast
  also have "\<dots> = ''tshl''" by code_simp
  finally show "directionCode (importWaypoint lower t (w\<lparr>Symbol := ''TSHL''\<rparr>)) = 0x07"
    by (simp add: directionCode_importWaypoint convertDirectionCode_def DirectionCode_defs)
next
  assume lib: "\<forall>x. isASCII x \<longrightarrow> lower x = asciiToLower x"
  have "isASCII ''unknown-marker''" by code_simp
  with lib have "lower ''unknown-marker'' = asciiToLower ''unknown-marker''" by blast
  also have "\<dots> = ''unknown-marker''" by code_simp
  finally show "directionCode (importWaypoint lower t (w\<lparr>Symbol := ''unknown-marker''\<rparr>)) = 0x01"
    by (simp add: directionCode_importWaypoint convertDirectionCode_def DirectionCode_defs)
qed

text \<open>The theorem with the ASCII lower-casing in the place of the library function, at
  the symbols \<open>LeFt\<close> and \<open>lEfT\<close>: both get the code 0x03 of \<open>left\<close>.\<close>

theorem convertDirectionCode_table_witness:
  "isASCII ''LeFt'' \<and> isASCII ''lEfT'' \<and> list_all2 sameLetter ''LeFt'' ''lEfT'' \<and>
   directionCode (importWaypoint asciiToLower []
     \<lparr>Latitude = Float64 1 0, Longitude = Float64 1 0, Name = ''Turn'', Symbol = ''LeFt''\<rparr>) = 0x03 \<and>
   directionCode (importWaypoint asciiToLower []
     \<lparr>Latitude = Float64 1 0, Longitude = Float64 1 0, Name = ''Turn'', Symbol = ''lEfT''\<rparr>) = 0x03 \<and>
   directionCode (importWaypoint asciiToLower []
     \<lparr>Latitude = Float64 1 0, Longitude = Float64 1 0, Name = ''Turn'', Symbol = ''TSHL''\<rparr>) = 0x07"
proof -
  let ?w = "\<lparr>Latitude = Float64 1 0, Longitude = Float64 1 0, Name = ''Turn'', Symbol = ''x''\<rparr>"
  have lib: "\<forall>x. isASCII x \<longrightarrow> asciiToLower x = asciiToLower x" by simp
  have a: "isASCII ''LeFt''" "isASCII ''lEfT''" "list_all2 sameLetter ''LeFt'' ''lEfT''"
    by code_simp+
  have low: "asciiToLower ''LeFt'' = ''left''" by code_simp
  from convertDirectionCode_table [of asciiToLower "[]" ?w "''LeFt''" "''lEfT''"] lib a
  have "directionCode (importWaypoint asciiToLower [] (?w\<lparr>Symbol := ''LeFt''\<rparr>)) =
      directionCode (importWaypoint asciiToLower [] (?w\<lparr>Symbol := ''lEfT''\<rparr>))"
    and "directionCode (importWaypoint asciiToLower [] (?w\<lparr>Symbol := ''LeFt''\<rparr>)) =
      (if asciiToLower ''LeFt'' = ''tshl'' then 0x07
       else if asciiToLower ''LeFt'' = ''left'' then 0x03
       else if asciiToLower ''LeFt'' = ''tsll'' then 0x05
       else if asciiToLower ''LeFt'' = ''straight'' then 0x01
       else if asciiToLower ''LeFt'' = ''tslr'' then 0x04
       else if asciiToLower ''LeFt'' = ''right'' then 0x02
       else if asciiToLower ''LeFt'' = ''tshr'' then 0x06
       else 0x01)"
    and "directionCode (importWaypoint asciiToLower [] (?w\<lparr>Symbol := ''TSHL''\<rparr>)) = 0x07"
    by blast+
  with a show ?thesis unfolding low by simp
qed

section \<open>The index of a point in the track\<close>

lemma scanFrom_notin: "point \<notin> set t \<Longrightarrow> scanFrom i t point = 0"
  by (induction t arbitrary: i) auto

lemma scanFrom_in:
  "point \<in> set t \<Longrightarrow>
   \<exists>k<length t. t ! k = point \<and> (\<forall>j<k. t ! j \<noteq> point) \<and>
     scanFrom i t point = word_of_nat (i + k)"
proof (induction t arbitrary: i)
  case Nil
  then show ?case by simp
next
  case (Cons entry rest)
  show ?case
  proof (cases "entry = point")
    case True
    then show ?thesis by (intro exI [of _ 0]) simp
  next
    case False
    with Cons.prems have "point \<in> set rest" by simp
    from Cons.IH [OF this, of "Suc i"] obtain k where k: "k < length rest" "rest ! k = point"
      "\<forall>j<k. rest ! j \<noteq> point" "scanFrom (Suc i) rest point = word_of_nat (Suc i + k)"
      by blast
    have "\<forall>j<Suc k. (entry # rest) ! j \<noteq> point"
      using False k(3) by (auto simp: less_Suc_eq_0_disj)
    with k False show ?thesis
      by (intro exI [of _ "Suc k"]) simp
  qed
qed

lemma scanFrom_replicate:
  "a \<noteq> b \<Longrightarrow> scanFrom i (replicate n a @ [b]) b = word_of_nat (i + n)"
  by (induction n arbitrary: i) simp_all

text \<open>
  Claim C3, as the code has it. For every track and every point, \<open>getCoordinateIndex\<close>
  returns 0 when no element equals the point. Otherwise, with \<open>k\<close> the lowest index at
  which the track holds the point (both coordinates equal), it returns \<open>k\<close> cut to 16
  bits, that is \<open>k mod 65536\<close>: the lowest index itself whenever that is below 65536,
  so for every track of at most 65536 points. A point that is first in the track also
  gives 0, so the result 0 does not tell a match at index 0 from no match.
\<close>

theorem getCoordinateIndex_lowest:
  "(point \<notin> set t \<longrightarrow> getCoordinateIndex t point = 0) \<and>
   (point \<in> set t \<longrightarrow>
      (\<exists>k<length t. t ! k = point \<and> (\<forall>j<k. t ! j \<noteq> point) \<and>
         unat (getCoordinateIndex t point) = k mod 65536 \<and>
         (k < 65536 \<longrightarrow> unat (getCoordinateIndex t point) = k))) \<and>
   (length t \<le> 65536 \<and> point \<in> set t \<longrightarrow>
      (let i = unat (getCoordinateIndex t point)
       in i < length t \<and> t ! i = point \<and> (\<forall>j<i. t ! j \<noteq> point))) \<and>
   getCoordinateIndex (point # t) point = 0"
proof (intro conjI impI)
  assume "point \<notin> set t"
  then show "getCoordinateIndex t point = 0"
    by (simp add: getCoordinateIndex_def scanFrom_notin)
next
  assume "point \<in> set t"
  from scanFrom_in [OF this, of 0] obtain k where k: "k < length t" "t ! k = point"
    "\<forall>j<k. t ! j \<noteq> point" "getCoordinateIndex t point = word_of_nat k"
    by (auto simp: getCoordinateIndex_def)
  have "unat (getCoordinateIndex t point) = k mod 65536"
    unfolding k(4) by (simp add: unat_of_nat)
  with k show "\<exists>k<length t. t ! k = point \<and> (\<forall>j<k. t ! j \<noteq> point) \<and>
         unat (getCoordinateIndex t point) = k mod 65536 \<and>
         (k < 65536 \<longrightarrow> unat (getCoordinateIndex t point) = k)"
    by (intro exI [of _ k]) simp
next
  assume "length t \<le> 65536 \<and> point \<in> set t"
  then have len: "length t \<le> 65536" and mem: "point \<in> set t" by simp_all
  from scanFrom_in [OF mem, of 0] obtain k where k: "k < length t" "t ! k = point"
    "\<forall>j<k. t ! j \<noteq> point" "getCoordinateIndex t point = word_of_nat k"
    by (auto simp: getCoordinateIndex_def)
  have "k < 2 ^ 16" using k(1) len by simp
  then have "unat (word_of_nat k :: 16 word) = k"
    by (simp add: unat_of_nat)
  with k show "let i = unat (getCoordinateIndex t point)
       in i < length t \<and> t ! i = point \<and> (\<forall>j<i. t ! j \<noteq> point)"
    by simp
next
  show "getCoordinateIndex (point # t) point = 0"
    by (simp add: getCoordinateIndex_def)
qed

text \<open>The theorem at a track of four points in which the point sought stands at the
  indices 1 and 3: the result is 1.\<close>

theorem getCoordinateIndex_lowest_witness:
  "\<lparr>lat = 1000000, lon = 1000000\<rparr> \<in> set [\<lparr>lat = 0, lon = 0\<rparr>, \<lparr>lat = 1000000, lon = 1000000\<rparr>,
      \<lparr>lat = 2000000, lon = 2000000\<rparr>, \<lparr>lat = 1000000, lon = 1000000\<rparr>] \<and>
   getCoordinateIndex [\<lparr>lat = 0, lon = 0\<rparr>, \<lparr>lat = 1000000, lon = 1000000\<rparr>,
      \<lparr>lat = 2000000, lon = 2000000\<rparr>, \<lparr>lat = 1000000, lon = 1000000\<rparr>]
      \<lparr>lat = 1000000, lon = 1000000\<rparr> = 1 \<and>
   \<lparr>lat = 5, lon = 5\<rparr> \<notin> set [\<lparr>lat = 0 :: 32 word, lon = 0 :: 32 word\<rparr>] \<and>
   getCoordinateIndex [\<lparr>lat = 0, lon = 0\<rparr>] \<lparr>lat = 5, lon = 5\<rparr> = 0"
proof -
  let ?t = "[\<lparr>lat = 0, lon = 0\<rparr>, \<lparr>lat = 1000000, lon = 1000000\<rparr>,
      \<lparr>lat = 2000000, lon = 2000000\<rparr>, \<lparr>lat = 1000000 :: 32 word, lon = 1000000 :: 32 word\<rparr>]"
  have mem: "\<lparr>lat = 1000000, lon = 1000000\<rparr> \<in> set ?t" by simp
  have non: "\<lparr>lat = 5, lon = 5\<rparr> \<notin> set [\<lparr>lat = 0 :: 32 word, lon = 0 :: 32 word\<rparr>]" by simp
  from getCoordinateIndex_lowest [of "\<lparr>lat = 5, lon = 5\<rparr>" "[\<lparr>lat = 0, lon = 0\<rparr>]"] non
  have z: "getCoordinateIndex [\<lparr>lat = 0, lon = 0\<rparr>] \<lparr>lat = 5, lon = 5\<rparr> = 0" by blast
  have "getCoordinateIndex ?t \<lparr>lat = 1000000, lon = 1000000\<rparr> = 1"
    by (simp add: getCoordinateIndex_def)
  with mem non z show ?thesis by simp
qed

text \<open>
  Claim C3, as it is worded, fails on a long track. In a track of 65537 points whose
  last point is the only one equal to the point sought, the lowest index is 65536,
  and the function returns 0.
\<close>

theorem getCoordinateIndex_wraps:
  "(replicate 65536 \<lparr>lat = 0, lon = 0\<rparr> @ [\<lparr>lat = 1, lon = 1\<rparr>]) ! 65536 = \<lparr>lat = 1, lon = 1\<rparr> \<and>
   \<lparr>lat = 1, lon = 1\<rparr> \<notin> set (take 65536 (replicate 65536 \<lparr>lat = 0, lon = 0\<rparr> @ [\<lparr>lat = 1, lon = 1\<rparr>])) \<and>
   getCoordinateIndex (replicate 65536 \<lparr>lat = 0, lon = 0\<rparr> @ [\<lparr>lat = 1, lon = 1\<rparr>])
     \<lparr>lat = 1, lon = 1\<rparr> = 0"
proof -
  have ne: "\<lparr>lat = 0, lon = 0\<rparr> \<noteq> \<lparr>lat = 1 :: 32 word, lon = 1 :: 32 word\<rparr>" by simp
  have "getCoordinateIndex (replicate 65536 \<lparr>lat = 0, lon = 0\<rparr> @ [\<lparr>lat = 1, lon = 1\<rparr>])
      \<lparr>lat = 1, lon = 1\<rparr> = word_of_nat 65536"
    unfolding getCoordinateIndex_def using scanFrom_replicate [OF ne, of 0 65536] by simp
  moreover have "(word_of_nat 65536 :: 16 word) = 0" by simp
  ultimately show ?thesis
    by (simp add: nth_append)
qed

section \<open>The summary file\<close>

lemma smyBuffer: "writeLayout LittleEndian [] (smyLayout s) =
    Inr (putUint16LE 0x0001 @ putUint16LE (coordinateCount s) @ putUint32LE (bboxLatNe s) @
      putUint32LE (bboxLatSw s) @ putUint32LE (bboxLonNe s) @ putUint32LE (bboxLonSw s) @
      putUint32LE (totalDst s))"
  by (simp add: smyLayout_def binaryWrite_def putUint16_def putUint32_def)

text \<open>
  Claim C6. For every summary record the exporter builds a buffer of exactly 24 bytes:
  the constant flag 0x0001 (the bytes 01 00), then the coordinate count (2 bytes), the
  north latitude, the south latitude, the east longitude, the west longitude and the
  total distance (4 bytes each, low byte first). That one buffer is what it hands to
  \<open>storeToFile\<close> under the name with the extension .smy; where the file can be
  created and written, the file then holds this one record and nothing else.
\<close>

theorem BrytonSmy_Export_layout:
  "let buf = [0x01, 0x00] @ putUint16LE (coordinateCount s) @ putUint32LE (bboxLatNe s) @
         putUint32LE (bboxLatSw s) @ putUint32LE (bboxLonNe s) @ putUint32LE (bboxLonSw s) @
         putUint32LE (totalDst s);
       name = adjustFilename outFileName ''.smy''
   in length buf = 24 \<and>
      BrytonSmy_Export s outFileName w = Return (storeToFile buf name w) \<and>
      (\<not> createFails w name \<and> writeLimit w name = None \<longrightarrow>
         BrytonSmy_Export s outFileName w =
           Return (None, w\<lparr>files := (files w)(name \<mapsto> buf)\<rparr>))"
proof -
  have one: "putUint16LE (0x01 :: 16 word) = [0x01, 0x00]"
    by (simp add: putUint16LE_def)
  show ?thesis
    unfolding Let_def BrytonSmy_Export_def smyBuffer
    by (simp add: one length_putUint16LE length_putUint32LE storeToFile_ok)
qed

text \<open>The theorem at a record with the coordinates of the specification's examples
  (51507351 is 03 11 F0 97 in hexadecimal, -127758 is FF FE 0C F2), written to an
  empty file system in which nothing fails.\<close>

theorem BrytonSmy_Export_layout_witness:
  "BrytonSmy_Export
     \<lparr>smyFlag = 0, coordinateCount = 3, bboxLatNe = 51507351, bboxLatSw = 2,
      bboxLonNe = 258, bboxLonSw = - 127758, totalDst = 65536\<rparr>
     ''ride.gpx''
     \<lparr>files = Map.empty, createFails = (\<lambda>n. False), writeLimit = (\<lambda>n. None)\<rparr>
   = Return (None,
       \<lparr>files = [''ride.smy'' \<mapsto>
          [0x01, 0x00, 0x03, 0x00, 0x97, 0xF0, 0x11, 0x03, 0x02, 0x00, 0x00, 0x00,
           0x02, 0x01, 0x00, 0x00, 0xF2, 0x0C, 0xFE, 0xFF, 0x00, 0x00, 0x01, 0x00]],
        createFails = (\<lambda>n. False), writeLimit = (\<lambda>n. None)\<rparr>)"
proof -
  have bytes: "putUint16LE 3 = [0x03, 0x00]"
      "putUint32LE 51507351 = [0x97, 0xF0, 0x11, 0x03]"
      "putUint32LE 2 = [0x02, 0x00, 0x00, 0x00]"
      "putUint32LE 258 = [0x02, 0x01, 0x00, 0x00]"
      "putUint32LE (- 127758) = [0xF2, 0x0C, 0xFE, 0xFF]"
      "putUint32LE 65536 = [0x00, 0x00, 0x01, 0x00]"
    by (simp_all add: putUint16LE_def putUint32LE_def)
  have name: "adjustFilename ''ride.gpx'' ''.smy'' = ''ride.smy''"
    by (simp add: adjustFilename_def)
  show ?thesis
    using BrytonSmy_Export_layout [of
      "\<lparr>smyFlag = 0, coordinateCount = 3, bboxLatNe = 51507351, bboxLatSw = 2,
        bboxLonNe = 258, bboxLonSw = - 127758, totalDst = 65536\<rparr>"
      "''ride.gpx''"
      "\<lparr>files = Map.empty, createFails = (\<lambda>n. False), writeLimit = (\<lambda>n. None)\<rparr>"]
    unfolding Let_def name
    by (auto simp add: bytes)
qed

section \<open>The track file\<close>

lemma writeLayout_track:
  "writeLayout order buf (trackLayout p) =
     Inr (buf @ putUint32 order (lat p) @ putUint32 order (lon p) @ putUint64 order 0)"
  by (simp add: trackLayout_def binaryWrite_def)

lemma trackBuffer_bytes:
  "trackBuffer order buf t =
     Inr (buf @ concat (map (\<lambda>p. putUint32 order (lat p) @ putUint32 order (lon p) @ putUint64 order 0) t))"
  by (induction t arbitrary: buf) (simp_all add: writeLayout_track)

lemma putUint64LE_zero: "putUint64LE 0 = replicate 8 0"
  by (simp add: putUint64LE_def numeral_eq_Suc)

lemma trackBuffer_LE:
  "trackBuffer LittleEndian [] t =
     Inr (concat (map (\<lambda>p. putUint32LE (lat p) @ putUint32LE (lon p) @ replicate 8 0) t))"
  by (simp add: trackBuffer_bytes putUint32_def putUint64_def putUint64LE_zero)

lemma decodeTrack_record:
  "decodeTrack ((putUint32LE (lat p) @ putUint32LE (lon p) @ replicate 8 0) @ rest) = p # decodeTrack rest"
proof -
  have "decodeTrack ((putUint32LE (lat p) @ putUint32LE (lon p) @ replicate 8 0) @ rest) =
      \<lparr>lat = uint32LE (putUint32LE (lat p)), lon = uint32LE (putUint32LE (lon p))\<rparr> # decodeTrack rest"
    by (subst decodeTrack.simps) (simp add: length_putUint32LE)
  then show ?thesis by (simp add: uint32LE_putUint32LE)
qed

lemma decodeTrack_concat:
  "decodeTrack (concat (map (\<lambda>p. putUint32LE (lat p) @ putUint32LE (lon p) @ replicate 8 0) t)) = t"
proof (induction t)
  case Nil
  show ?case by (subst decodeTrack.simps) simp
next
  case (Cons p t)
  then show ?case using decodeTrack_record [of p] by simp
qed

lemma length_track_bytes:
  "length (concat (map (\<lambda>p. putUint32LE (lat p) @ putUint32LE (lon p) @ replicate 8 0) t)) = 16 * length t"
  by (induction t) (simp_all add: length_putUint32LE)

text \<open>
  Claim C4. For every sequence of points (of any length, so also for 0 to 10,000 points)
  the buffer the track exporter hands to \<open>storeToFile\<close> is, point after point in
  sequence order, the latitude (4 bytes), the longitude (4 bytes) and 8 zero bytes, with
  nothing before or after; it is 16 bytes for each point, and decoding it gives the
  points back, in order.
\<close>

theorem BrytonTrack_Export_roundtrip:
  "let buf = concat (map (\<lambda>p. putUint32LE (lat p) @ putUint32LE (lon p) @ replicate 8 0) t)
   in BrytonTrack_Export t outFileName w =
        Return (storeToFile buf (adjustFilename outFileName ''.track'') w) \<and>
      length buf = 16 * length t \<and>
      decodeTrack buf = t"
  unfolding Let_def BrytonTrack_Export_def trackBuffer_LE
  by (simp add: length_track_bytes decodeTrack_concat)

section \<open>The waypoint file\<close>

lemma writeLayout_tinfo:
  "writeLayout LittleEndian buf (tinfoLayout e) =
     Inr (buf @ putUint16LE (coordinateIndex e) @ [directionCode e, 0] @ putUint16LE (distance e) @
       [0, 0] @ putUint16LE (timeSec e) @ [0, 0] @ waypointDescription e)"
  by (simp add: tinfoLayout_def binaryWrite_def putUint16_def putUint16LE_def)

lemma tinfoBuffer_LE:
  "tinfoBuffer LittleEndian buf ti =
     Inr (buf @ concat (map (\<lambda>e. putUint16LE (coordinateIndex e) @ [directionCode e, 0] @
       putUint16LE (distance e) @ [0, 0] @ putUint16LE (timeSec e) @ [0, 0] @
       waypointDescription e) ti))"
  by (induction ti arbitrary: buf) (simp_all add: writeLayout_tinfo)

lemma length_tinfo_bytes:
  "\<forall>e\<in>set ti. wf_Waypoint e \<Longrightarrow>
   length (concat (map (\<lambda>e. putUint16LE (coordinateIndex e) @ [directionCode e, 0] @
       putUint16LE (distance e) @ [0, 0] @ putUint16LE (timeSec e) @ [0, 0] @
       waypointDescription e) ti)) = 44 * length ti"
  by (induction ti) (simp_all add: length_putUint16LE wf_Waypoint_def)

lemma copyBytes_zero:
  "copyBytes (replicate 32 0) src = take 32 src @ replicate (32 - length src) 0"
  by (simp add: copyBytes_def Let_def min_def)

lemma importWaypoint_description:
  "waypointDescription (importWaypoint lower t g) =
     take 32 (bytesOf (Name g)) @ replicate (32 - length (Name g)) 0"
  by (simp add: importWaypoint_def zeroWaypoint_def copyBytes_zero bytesOf_def)

lemma wf_importWaypoint: "wf_Waypoint (importWaypoint lower t g)"
  by (simp add: wf_Waypoint_def importWaypoint_description bytesOf_def)

text \<open>
  Claim C5. For every list of waypoints (each with its 32-byte description array), the
  buffer the waypoint exporter hands to \<open>storeToFile\<close> is, waypoint after waypoint in
  list order: the coordinate index (2 bytes), the direction code (1 byte), a zero byte,
  the distance (2 bytes), two zero bytes, the time in seconds (2 bytes), two zero bytes
  and the 32 bytes of the description, so 44 bytes for each waypoint and a length that
  is a multiple of 44. The description the importer builds is the name cut to at most
  32 bytes and filled up with zero bytes to exactly 32; cutting is no error.
\<close>

theorem BrytonTinfo_Export_layout:
  "\<forall>e\<in>set ti. wf_Waypoint e \<Longrightarrow>
   (let buf = concat (map (\<lambda>e. putUint16LE (coordinateIndex e) @ [directionCode e, 0x00] @
          putUint16LE (distance e) @ [0x00, 0x00] @ putUint16LE (timeSec e) @ [0x00, 0x00] @
          waypointDescription e) ti)
    in BrytonTinfo_Export ti outFileName w =
         Return (storeToFile buf (adjustFilename outFileName ''.tinfo'') w) \<and>
       length buf = 44 * length ti) \<and>
   wf_Waypoint (importWaypoint lower t g) \<and>
   waypointDescription (importWaypoint lower t g) =
     take 32 (bytesOf (Name g)) @ replicate (32 - length (Name g)) 0x00"
  using length_tinfo_bytes [of ti]
  unfolding Let_def BrytonTinfo_Export_def tinfoBuffer_LE
  by (simp add: wf_importWaypoint importWaypoint_description)

text \<open>The theorem at the specification's example: the track (0,0), (1,1), (2,2) in
  degrees, a waypoint at (1,1) with the symbol left and the name Turn. The record has
  the index 1, the direction 0x03 and the description Turn followed by 28 zero bytes.
  A name of 35 bytes is cut to its first 32.\<close>

theorem BrytonTinfo_Export_layout_witness:
  "importWaypoint asciiToLower [\<lparr>lat = 0, lon = 0\<rparr>, \<lparr>lat = 1000000, lon = 1000000\<rparr>, \<lparr>lat = 2000000, lon = 2000000\<rparr>]
     \<lparr>Latitude = Float64 1 0, Longitude = Float64 1 0, Name = ''Turn'', Symbol = ''left''\<rparr> =
     \<lparr>coordinateIndex = 1, directionCode = 0x03, distance = 0, timeSec = 0,
      waypointDescription = [0x54, 0x75, 0x72, 0x6E] @ replicate 28 0\<rparr> \<and>
   BrytonTinfo_Export
     [\<lparr>coordinateIndex = 1, directionCode = 0x03, distance = 0, timeSec = 0,
       waypointDescription = [0x54, 0x75, 0x72, 0x6E] @ replicate 28 0\<rparr>]
     ''out'' workingOs =
     Return (None, workingOs\<lparr>files := [''out.tinfo'' \<mapsto>
       [0x01, 0x00, 0x03, 0x00, 0x00, 0x00, 0x00, 0x00, 0x00, 0x00, 0x00, 0x00,
        0x54, 0x75, 0x72, 0x6E] @ replicate 28 0]\<rparr>) \<and>
   waypointDescription (importWaypoint asciiToLower []
     \<lparr>Latitude = Float64 1 0, Longitude = Float64 1 0,
      Name = ''0123456789ABCDEF0123456789abcdefXYZ'', Symbol = ''left''\<rparr>) =
     bytesOf ''0123456789ABCDEF0123456789abcdef''"
proof -
  let ?wp = "\<lparr>coordinateIndex = 1, directionCode = 0x03, distance = 0, timeSec = 0,
      waypointDescription = [0x54, 0x75, 0x72, 0x6E] @ replicate 28 0\<rparr>"
  let ?g = "\<lparr>Latitude = Float64 1 0, Longitude = Float64 1 0,
      Name = ''0123456789ABCDEF0123456789abcdefXYZ'', Symbol = ''left''\<rparr>"
  have wf: "\<forall>e\<in>set [?wp]. wf_Waypoint e"
    by (simp add: wf_Waypoint_def)
  have imp: "importWaypoint asciiToLower [\<lparr>lat = 0, lon = 0\<rparr>, \<lparr>lat = 1000000, lon = 1000000\<rparr>, \<lparr>lat = 2000000, lon = 2000000\<rparr>]
     \<lparr>Latitude = Float64 1 0, Longitude = Float64 1 0, Name = ''Turn'', Symbol = ''left''\<rparr> = ?wp"
    by code_simp
  have name: "adjustFilename ''out'' ''.tinfo'' = ''out.tinfo''"
    by (simp add: adjustFilename_def)
  have bytes: "putUint16LE 1 = [0x01, 0x00]" "putUint16LE 0 = [0x00, 0x00]"
    by (simp_all add: putUint16LE_def)
  have cut: "take 32 (bytesOf (Name ?g)) @ replicate (32 - length (Name ?g)) 0 =
      bytesOf ''0123456789ABCDEF0123456789abcdef''"
    by (simp add: bytesOf_def)
  have store: "storeToFile buf ''out.tinfo'' workingOs =
      (None, workingOs\<lparr>files := [''out.tinfo'' \<mapsto> buf]\<rparr>)" for buf
    by (simp add: storeToFile_ok workingOs_def)
  from BrytonTinfo_Export_layout [OF wf, of "''out''" workingOs asciiToLower "[]" ?g]
  have "BrytonTinfo_Export [?wp] ''out'' workingOs =
      Return (None, workingOs\<lparr>files := [''out.tinfo'' \<mapsto>
       [0x01, 0x00, 0x03, 0x00, 0x00, 0x00, 0x00, 0x00, 0x00, 0x00, 0x00, 0x00,
        0x54, 0x75, 0x72, 0x6E] @ replicate 28 0]\<rparr>)"
    and "waypointDescription (importWaypoint asciiToLower [] ?g) = bytesOf ''0123456789ABCDEF0123456789abcdef''"
    unfolding Let_def name cut
    by (simp_all add: bytes store)
  with imp show ?thesis by simp
qed

section \<open>The two versions of the exporters\<close>

lemma putUint16BE_inverse:
  "push_bit 8 (ucast (putUint16BE f ! 0)) OR ucast (putUint16BE f ! 1) = f"
  unfolding putUint16BE_def
  apply simp
  apply (rule bit_word_eqI)
  apply (auto simp add: bit_simps not_less)
  done

lemma putUint16BE_flag: "putUint16BE f = [0x01, 0x00] \<Longrightarrow> f = 0x0100"
proof -
  assume a: "putUint16BE f = [0x01, 0x00]"
  have "f = push_bit 8 (ucast (putUint16BE f ! 0)) OR ucast (putUint16BE f ! 1)"
    by (simp only: putUint16BE_inverse)
  also have "\<dots> = 0x0100" unfolding a by simp
  finally show ?thesis .
qed

lemma smy_buffers_differ:
  "smyFlag s \<noteq> 0x0100 \<Longrightarrow>
   binaryWrite [] BigEndian (SmyStruct s) \<noteq> writeLayout LittleEndian [] (smyLayout s)"
proof
  assume ne: "smyFlag s \<noteq> 0x0100"
    and eq: "binaryWrite [] BigEndian (SmyStruct s) = writeLayout LittleEndian [] (smyLayout s)"
  have "putUint16LE (0x0001 :: 16 word) = [0x01, 0x00]" by (simp add: putUint16LE_def)
  with eq have "putUint16BE (smyFlag s) @ putUint16BE (coordinateCount s) @ putUint32BE (bboxLatNe s) @
     putUint32BE (bboxLatSw s) @ putUint32BE (bboxLonNe s) @
     putUint32BE (bboxLonSw s) @ putUint32BE (totalDst s) = [0x01, 0x00] @ putUint16LE (coordinateCount s) @ putUint32LE (bboxLatNe s) @
      putUint32LE (bboxLatSw s) @ putUint32LE (bboxLonNe s) @ putUint32LE (bboxLonSw s) @
      putUint32LE (totalDst s)"
    unfolding smyBuffer by (simp add: binaryWrite_def putUint16_def putUint32_def)
  then have "putUint16BE (smyFlag s) = [0x01, 0x00]"
    by (simp add: putUint16BE_def)
  with ne show False using putUint16BE_flag by blast
qed

lemma concat_map_inj:
  assumes "\<And>x. length (f x) = length (g x)"
  shows "concat (map f xs) = concat (map g xs) \<Longrightarrow> x \<in> set xs \<Longrightarrow> f x = g x"
  using assms by (induction xs) auto

lemma track_buffers_differ:
  assumes "p \<in> set t"
    and "putUint32BE (lat p) \<noteq> putUint32LE (lat p) \<or> putUint32BE (lon p) \<noteq> putUint32LE (lon p)"
  shows "trackBuffer BigEndian [] t \<noteq> trackBuffer LittleEndian [] t"
proof
  assume "trackBuffer BigEndian [] t = trackBuffer LittleEndian [] t"
  then have "concat (map (\<lambda>p. putUint32 BigEndian (lat p) @ putUint32 BigEndian (lon p) @ putUint64 BigEndian 0) t)
     = concat (map (\<lambda>p. putUint32 LittleEndian (lat p) @ putUint32 LittleEndian (lon p) @ putUint64 LittleEndian 0) t)"
    by (simp add: trackBuffer_bytes)
  from concat_map_inj [OF _ this assms(1)]
  have "putUint32 BigEndian (lat p) @ putUint32 BigEndian (lon p) @ putUint64 BigEndian 0 =
    putUint32 LittleEndian (lat p) @ putUint32 LittleEndian (lon p) @ putUint64 LittleEndian 0"
    by simp
  then have "putUint32 BigEndian (lat p) = putUint32 LittleEndian (lat p) \<and>
      putUint32 BigEndian (lon p) = putUint32 LittleEndian (lon p)"
    by simp
  with assms(2) show False by (simp add: putUint32_def)
qed

lemma storeToFile_inj:
  assumes "\<not> createFails w name" "writeLimit w name = None"
    and "storeToFile a name w = storeToFile b name w"
  shows "a = b"
proof -
  from assms have "files (w\<lparr>files := (files w)(name \<mapsto> a)\<rparr>) name = files (w\<lparr>files := (files w)(name \<mapsto> b)\<rparr>) name"
    by (simp add: storeToFile_ok)
  then show ?thesis by simp
qed

text \<open>
  Claim C9. The earlier exporters (the summary written as a struct in big-endian order,
  the track in big-endian order) and the final ones (each field written in
  little-endian order after the constant flag 0x0001) are not byte-equivalent. For
  the same summary record the two summary buffers differ whenever the record's
  \<open>smyFlag\<close> is not 0x0100, which covers every record the importer fills in, since
  no code assigns that field and it stays 0. For the same track the two track buffers
  differ whenever some point has a coordinate whose four bytes do not read the same in
  both directions. Where the file can be created and written, the exporters then leave
  different files.
\<close>

theorem exporter_versions_differ:
  "(smyFlag s \<noteq> 0x0100 \<longrightarrow>
      binaryWrite [] BigEndian (SmyStruct s) \<noteq> writeLayout LittleEndian [] (smyLayout s)) \<and>
   (smyFlag s \<noteq> 0x0100 \<and> \<not> createFails w (adjustFilename outFileName ''.smy'') \<and>
      writeLimit w (adjustFilename outFileName ''.smy'') = None \<longrightarrow>
      BrytonSmy_Export_v0 s outFileName w \<noteq> BrytonSmy_Export s outFileName w) \<and>
   (p \<in> set t \<and> (putUint32BE (lat p) \<noteq> putUint32LE (lat p) \<or>
        putUint32BE (lon p) \<noteq> putUint32LE (lon p)) \<longrightarrow>
      trackBuffer BigEndian [] t \<noteq> trackBuffer LittleEndian [] t) \<and>
   (p \<in> set t \<and> (putUint32BE (lat p) \<noteq> putUint32LE (lat p) \<or>
        putUint32BE (lon p) \<noteq> putUint32LE (lon p)) \<and>
      \<not> createFails w (adjustFilename outFileName ''.track'') \<and>
      writeLimit w (adjustFilename outFileName ''.track'') = None \<longrightarrow>
      BrytonTrack_Export_v0 t outFileName w \<noteq> BrytonTrack_Export t outFileName w)"
proof (intro conjI impI)
  assume "smyFlag s \<noteq> 0x0100"
  then show "binaryWrite [] BigEndian (SmyStruct s) \<noteq> writeLayout LittleEndian [] (smyLayout s)"
    by (rule smy_buffers_differ)
next
  assume a: "smyFlag s \<noteq> 0x0100 \<and> \<not> createFails w (adjustFilename outFileName ''.smy'') \<and>
      writeLimit w (adjustFilename outFileName ''.smy'') = None"
  obtain x where x: "binaryWrite [] BigEndian (SmyStruct s) = Inr x"
    by (simp add: binaryWrite_def)
  obtain y where y: "writeLayout LittleEndian [] (smyLayout s) = Inr y"
    by (simp add: smyBuffer)
  from a smy_buffers_differ [of s] x y have "x \<noteq> y" by simp
  with a storeToFile_inj [of w "adjustFilename outFileName ''.smy''" x y]
  show "BrytonSmy_Export_v0 s outFileName w \<noteq> BrytonSmy_Export s outFileName w"
    by (auto simp add: BrytonSmy_Export_v0_def BrytonSmy_Export_def x y)
next
  assume "p \<in> set t \<and> (putUint32BE (lat p) \<noteq> putUint32LE (lat p) \<or>
        putUint32BE (lon p) \<noteq> putUint32LE (lon p))"
  then show "trackBuffer BigEndian [] t \<noteq> trackBuffer LittleEndian [] t"
    using track_buffers_differ [of p t] by blast
next
  assume a: "p \<in> set t \<and> (putUint32BE (lat p) \<noteq> putUint32LE (lat p) \<or>
        putUint32BE (lon p) \<noteq> putUint32LE (lon p)) \<and>
      \<not> createFails w (adjustFilename outFileName ''.track'') \<and>
      writeLimit w (adjustFilename outFileName ''.track'') = None"
  obtain x where x: "trackBuffer BigEndian [] t = Inr x"
    by (simp add: trackBuffer_bytes)
  obtain y where y: "trackBuffer LittleEndian [] t = Inr y"
    by (simp add: trackBuffer_bytes)
  from a track_buffers_differ [of p t] x y have "x \<noteq> y" by auto
  with a storeToFile_inj [of w "adjustFilename outFileName ''.track''" x y]
  show "BrytonTrack_Export_v0 t outFileName w \<noteq> BrytonTrack_Export t outFileName w"
    by (auto simp add: BrytonTrack_Export_v0_def BrytonTrack_Export_def x y)
qed

text \<open>The theorem at the summary record and the point of the specification's example
  coordinates, with the bytes both versions produce.\<close>

theorem exporter_versions_differ_witness:
  "binaryWrite [] BigEndian (SmyStruct
      \<lparr>smyFlag = 0, coordinateCount = 3, bboxLatNe = 51507351, bboxLatSw = 2,
       bboxLonNe = 258, bboxLonSw = - 127758, totalDst = 65536\<rparr>) =
     Inr [0x00, 0x00, 0x00, 0x03, 0x03, 0x11, 0xF0, 0x97, 0x00, 0x00, 0x00, 0x02,
          0x00, 0x00, 0x01, 0x02, 0xFF, 0xFE, 0x0C, 0xF2, 0x00, 0x01, 0x00, 0x00] \<and>
   binaryWrite [] BigEndian (SmyStruct
      \<lparr>smyFlag = 0, coordinateCount = 3, bboxLatNe = 51507351, bboxLatSw = 2,
       bboxLonNe = 258, bboxLonSw = - 127758, totalDst = 65536\<rparr>) \<noteq>
     writeLayout LittleEndian [] (smyLayout
      \<lparr>smyFlag = 0, coordinateCount = 3, bboxLatNe = 51507351, bboxLatSw = 2,
       bboxLonNe = 258, bboxLonSw = - 127758, totalDst = 65536\<rparr>) \<and>
   BrytonSmy_Export_v0
      \<lparr>smyFlag = 0, coordinateCount = 3, bboxLatNe = 51507351, bboxLatSw = 2,
       bboxLonNe = 258, bboxLonSw = - 127758, totalDst = 65536\<rparr> ''ride.gpx'' workingOs \<noteq>
     BrytonSmy_Export
      \<lparr>smyFlag = 0, coordinateCount = 3, bboxLatNe = 51507351, bboxLatSw = 2,
       bboxLonNe = 258, bboxLonSw = - 127758, totalDst = 65536\<rparr> ''ride.gpx'' workingOs \<and>
   trackBuffer BigEndian [] [\<lparr>lat = 51507351, lon = - 127758\<rparr>] =
     Inr [0x03, 0x11, 0xF0, 0x97, 0xFF, 0xFE, 0x0C, 0xF2, 0, 0, 0, 0, 0, 0, 0, 0] \<and>
   trackBuffer LittleEndian [] [\<lparr>lat = 51507351, lon = - 127758\<rparr>] =
     Inr [0x97, 0xF0, 0x11, 0x03, 0xF2, 0x0C, 0xFE, 0xFF, 0, 0, 0, 0, 0, 0, 0, 0] \<and>
   trackBuffer BigEndian [] [\<lparr>lat = 51507351, lon = - 127758\<rparr>] \<noteq>
     trackBuffer LittleEndian [] [\<lparr>lat = 51507351, lon = - 127758\<rparr>] \<and>
   BrytonTrack_Export_v0 [\<lparr>lat = 51507351, lon = - 127758\<rparr>] ''ride.gpx'' workingOs \<noteq>
     BrytonTrack_Export [\<lparr>lat = 51507351, lon = - 127758\<rparr>] ''ride.gpx'' workingOs"
proof -
  let ?s = "\<lparr>smyFlag = 0, coordinateCount = 3, bboxLatNe = 51507351, bboxLatSw = 2,
       bboxLonNe = 258, bboxLonSw = - 127758, totalDst = 65536\<rparr>"
  let ?p = "\<lparr>lat = 51507351, lon = - 127758\<rparr>"
  have be: "putUint16BE 0 = [0x00, 0x00]" "putUint16BE 3 = [0x00, 0x03]"
      "putUint32BE 51507351 = [0x03, 0x11, 0xF0, 0x97]"
      "putUint32BE 2 = [0x00, 0x00, 0x00, 0x02]"
      "putUint32BE 258 = [0x00, 0x00, 0x01, 0x02]"
      "putUint32BE (- 127758) = [0xFF, 0xFE, 0x0C, 0xF2]"
      "putUint32BE 65536 = [0x00, 0x01, 0x00, 0x00]"
      "putUint64BE 0 = [0, 0, 0, 0, 0, 0, 0, 0]"
    by (simp_all add: putUint16BE_def putUint32BE_def putUint64BE_def)
  have le: "putUint32LE 51507351 = [0x97, 0xF0, 0x11, 0x03]"
      "putUint32LE (- 127758) = [0xF2, 0x0C, 0xFE, 0xFF]"
      "putUint64LE 0 = [0, 0, 0, 0, 0, 0, 0, 0]"
    by (simp_all add: putUint32LE_def putUint64LE_def)
  have a: "binaryWrite [] BigEndian (SmyStruct ?s) =
     Inr [0x00, 0x00, 0x00, 0x03, 0x03, 0x11, 0xF0, 0x97, 0x00, 0x00, 0x00, 0x02,
          0x00, 0x00, 0x01, 0x02, 0xFF, 0xFE, 0x0C, 0xF2, 0x00, 0x01, 0x00, 0x00]"
    by (simp add: binaryWrite_def putUint16_def putUint32_def be)
  have b: "trackBuffer BigEndian [] [?p] =
     Inr [0x03, 0x11, 0xF0, 0x97, 0xFF, 0xFE, 0x0C, 0xF2, 0, 0, 0, 0, 0, 0, 0, 0]"
    by (simp add: trackBuffer_bytes putUint32_def putUint64_def be)
  have c: "trackBuffer LittleEndian [] [?p] =
     Inr [0x97, 0xF0, 0x11, 0x03, 0xF2, 0x0C, 0xFE, 0xFF, 0, 0, 0, 0, 0, 0, 0, 0]"
    by (simp add: trackBuffer_bytes putUint32_def putUint64_def le)
  have h1: "smyFlag ?s \<noteq> 0x0100" by simp
  have h2: "?p \<in> set [?p]" by simp
  have h3: "putUint32BE (lat ?p) \<noteq> putUint32LE (lat ?p)" by (simp add: be le)
  have h4: "\<not> createFails workingOs n" "writeLimit workingOs n = None" for n
    by (simp_all add: workingOs_def)
  from exporter_versions_differ [of ?s workingOs "''ride.gpx''" ?p "[?p]"] h1 h2 h3 h4
  have "binaryWrite [] BigEndian (SmyStruct ?s) \<noteq> writeLayout LittleEndian [] (smyLayout ?s)"
    "BrytonSmy_Export_v0 ?s ''ride.gpx'' workingOs \<noteq> BrytonSmy_Export ?s ''ride.gpx'' workingOs"
    "trackBuffer BigEndian [] [?p] \<noteq> trackBuffer LittleEndian [] [?p]"
    "BrytonTrack_Export_v0 [?p] ''ride.gpx'' workingOs \<noteq> BrytonTrack_Export [?p] ''ride.gpx'' workingOs"
    by blast+
  with a b c show ?thesis by blast
qed

section \<open>Import\<close>

lemma appendTrackPoints_map: "appendTrackPoints t ps = t @ map toGeoPoint ps"
  by (induction ps arbitrary: t) simp_all

lemma appendWaypoints_map:
  "appendWaypoints lower t ti ws = ti @ map (importWaypoint lower t) ws"
  by (induction ws arbitrary: ti) simp_all

text \<open>The waypoints a successful import into an empty model builds: one for each
  waypoint of the file, in order, each with a description of 32 bytes.\<close>

lemma ImportGpx_tinfo:
  assumes "parseFile gpxFileName = Inr g"
  shows "tinfo (snd (ImportGpx lower parseFile zeroData gpxFileName)) =
      map (importWaypoint lower (map toGeoPoint (firstSegmentPoints g))) (Waypoints g)"
    and "\<forall>e\<in>set (tinfo (snd (ImportGpx lower parseFile zeroData gpxFileName))). wf_Waypoint e"
  using assms
  by (simp_all add: ImportGpx_def Let_def zeroData_def appendTrackPoints_map appendWaypoints_map
      wf_importWaypoint)

text \<open>
  Claim C7. If parsing the GPX file fails, \<open>ImportGpx\<close> returns the parser's error and
  the model is exactly as it was before the call: no summary field, track point or
  waypoint has been set. The importer itself writes no file, and the program of the
  README does not export after a failed import, so the file system is unchanged.
\<close>

theorem ImportGpx_parse_failure:
  "parseFile gpxFileName = Inl err \<Longrightarrow>
   ImportGpx lower parseFile d gpxFileName = (Some err, d) \<and>
   readmeMain lower parseFile gpxFileName outFileName w = Return w"
  by (simp add: ImportGpx_def readmeMain_def)

text \<open>The theorem at a parser that fails, a model that already holds one track point,
  and an empty file system.\<close>

theorem ImportGpx_parse_failure_witness:
  "ImportGpx asciiToLower (\<lambda>n. Inl ParseFailed)
     \<lparr>smy = zeroSmy, track = [\<lparr>lat = 1, lon = 2\<rparr>], tinfo = []\<rparr> ''broken.gpx'' =
     (Some ParseFailed, \<lparr>smy = zeroSmy, track = [\<lparr>lat = 1, lon = 2\<rparr>], tinfo = []\<rparr>) \<and>
   readmeMain asciiToLower (\<lambda>n. Inl ParseFailed) ''broken.gpx'' ''out''
     \<lparr>files = Map.empty, createFails = (\<lambda>n. False), writeLimit = (\<lambda>n. None)\<rparr> =
     Return \<lparr>files = Map.empty, createFails = (\<lambda>n. False), writeLimit = (\<lambda>n. None)\<rparr>"
proof -
  have h: "(\<lambda>n. Inl ParseFailed :: error + GPX) ''broken.gpx'' = Inl ParseFailed" by simp
  show ?thesis
    using ImportGpx_parse_failure [OF h] by simp
qed

section \<open>Errors of the file system\<close>

lemma storeToFile_createFails:
  "createFails w name \<Longrightarrow> storeToFile buf name w = (Some CreateFailed, w)"
  by (simp add: storeToFile_def osCreate_def)

lemma storeToFile_all_or_nothing:
  "storeToFile buf name w = (r, w') \<Longrightarrow> r = None \<Longrightarrow> files w' name = Some buf"
  by (auto simp add: storeToFile_def osCreate_def fileWrite_def Let_def
      split: if_splits option.splits)

text \<open>
  Claim C8 says that a failure to create or write an output file is surfaced to the
  caller, also by \<open>BrytonData.Export\<close>. In a file system where no file can be created,
  each of the three exporters returns the error, and \<open>BrytonData.Export\<close>, which has
  no result, returns normally: the three errors are dropped.
\<close>

theorem BrytonData_Export_drops_errors:
  "BrytonSmy_Export (smy zeroData) ''out''
     \<lparr>files = Map.empty, createFails = (\<lambda>n. True), writeLimit = (\<lambda>n. None)\<rparr> =
     Return (Some CreateFailed, \<lparr>files = Map.empty, createFails = (\<lambda>n. True), writeLimit = (\<lambda>n. None)\<rparr>) \<and>
   BrytonTrack_Export (track zeroData) ''out''
     \<lparr>files = Map.empty, createFails = (\<lambda>n. True), writeLimit = (\<lambda>n. None)\<rparr> =
     Return (Some CreateFailed, \<lparr>files = Map.empty, createFails = (\<lambda>n. True), writeLimit = (\<lambda>n. None)\<rparr>) \<and>
   BrytonTinfo_Export (tinfo zeroData) ''out''
     \<lparr>files = Map.empty, createFails = (\<lambda>n. True), writeLimit = (\<lambda>n. None)\<rparr> =
     Return (Some CreateFailed, \<lparr>files = Map.empty, createFails = (\<lambda>n. True), writeLimit = (\<lambda>n. None)\<rparr>) \<and>
   BrytonData_Export zeroData ''out''
     \<lparr>files = Map.empty, createFails = (\<lambda>n. True), writeLimit = (\<lambda>n. None)\<rparr> =
     Return \<lparr>files = Map.empty, createFails = (\<lambda>n. True), writeLimit = (\<lambda>n. None)\<rparr>"
  by (simp add: BrytonData_Export_def BrytonSmy_Export_def BrytonTrack_Export_def
      BrytonTinfo_Export_def smyBuffer zeroData_def storeToFile_createFails)

section \<open>The coordinate count and the track\<close>

lemma sum_concat_segments:
  "sum_list (map (\<lambda>s. length (Points s)) (concat (map Segments ts))) =
   sum_list (map (\<lambda>t. sum_list (map (\<lambda>s. length (Points s)) (Segments t))) ts)"
  by (induction ts) simp_all

lemma GetTrackPointsNo_split:
  "GetTrackPointsNo g =
     length (firstSegmentPoints g) + sum_list (map (\<lambda>s. length (Points s)) (otherSegments g))"
  by (simp add: GetTrackPointsNo_def firstSegmentPoints_def otherSegments_def sum_concat_segments
      split: list.splits)

text \<open>
  Claim C10, as the code has it. After a successful import into an empty model the
  coordinate count is the number of points of all tracks and segments, converted to
  16 bits, and the track holds exactly the points of the first segment of the first
  track. The number of all points is the length of the track plus the number of points
  in the other segments. So, for fewer than 32768 points, the count is the length of
  the track plus the points elsewhere: it is greater than the number of track records
  exactly when some other segment holds a point, and equal when all other segments are
  empty.
\<close>

theorem ImportGpx_counts:
  "parseFile gpxFileName = Inr g \<Longrightarrow>
   (let d = snd (ImportGpx lower parseFile zeroData gpxFileName)
    in fst (ImportGpx lower parseFile zeroData gpxFileName) = None \<and>
       coordinateCount (smy d) = word_of_nat (GetTrackPointsNo g) \<and>
       track d = map toGeoPoint (firstSegmentPoints g) \<and>
       GetTrackPointsNo g =
         length (track d) + sum_list (map (\<lambda>s. length (Points s)) (otherSegments g)) \<and>
       (GetTrackPointsNo g < 32768 \<longrightarrow>
          sint (coordinateCount (smy d)) = int (GetTrackPointsNo g)))"
proof -
  assume p: "parseFile gpxFileName = Inr g"
  have s: "GetTrackPointsNo g < 32768 \<Longrightarrow>
      sint (word_of_nat (GetTrackPointsNo g) :: 16 word) = int (GetTrackPointsNo g)"
    by (simp add: signed_of_nat signed_take_bit_int_eq_self)
  show ?thesis
    using s GetTrackPointsNo_split [of g]
    by (simp add: ImportGpx_def p Let_def zeroData_def appendTrackPoints_map)
qed

text \<open>The theorem at a file with two tracks: the first has segments of 2 and 1
  points, the second a segment of 1 point. The count is 4, the track has 2 points.\<close>

theorem ImportGpx_counts_witness:
  "fst (ImportGpx asciiToLower
      (\<lambda>n. Inr (gpxFile
        [\<lparr>Segments = [\<lparr>Points = [gpxPoint (Float64 0 0) (Float64 0 0), gpxPoint (Float64 1 0) (Float64 1 0)]\<rparr>,
                      \<lparr>Points = [gpxPoint (Float64 2 0) (Float64 2 0)]\<rparr>]\<rparr>,
         \<lparr>Segments = [\<lparr>Points = [gpxPoint (Float64 3 0) (Float64 3 0)]\<rparr>]\<rparr>]))
      zeroData ''ride.gpx'') = None \<and>
   sint (coordinateCount (smy (snd (ImportGpx asciiToLower
      (\<lambda>n. Inr (gpxFile
        [\<lparr>Segments = [\<lparr>Points = [gpxPoint (Float64 0 0) (Float64 0 0), gpxPoint (Float64 1 0) (Float64 1 0)]\<rparr>,
                      \<lparr>Points = [gpxPoint (Float64 2 0) (Float64 2 0)]\<rparr>]\<rparr>,
         \<lparr>Segments = [\<lparr>Points = [gpxPoint (Float64 3 0) (Float64 3 0)]\<rparr>]\<rparr>]))
      zeroData ''ride.gpx'')))) = 4 \<and>
   length (track (snd (ImportGpx asciiToLower
      (\<lambda>n. Inr (gpxFile
        [\<lparr>Segments = [\<lparr>Points = [gpxPoint (Float64 0 0) (Float64 0 0), gpxPoint (Float64 1 0) (Float64 1 0)]\<rparr>,
                      \<lparr>Points = [gpxPoint (Float64 2 0) (Float64 2 0)]\<rparr>]\<rparr>,
         \<lparr>Segments = [\<lparr>Points = [gpxPoint (Float64 3 0) (Float64 3 0)]\<rparr>]\<rparr>]))
      zeroData ''ride.gpx''))) = 2"
proof -
  let ?g = "gpxFile
        [\<lparr>Segments = [\<lparr>Points = [gpxPoint (Float64 0 0) (Float64 0 0), gpxPoint (Float64 1 0) (Float64 1 0)]\<rparr>,
                      \<lparr>Points = [gpxPoint (Float64 2 0) (Float64 2 0)]\<rparr>]\<rparr>,
         \<lparr>Segments = [\<lparr>Points = [gpxPoint (Float64 3 0) (Float64 3 0)]\<rparr>]\<rparr>]"
  have h: "(\<lambda>n. Inr ?g :: error + GPX) ''ride.gpx'' = Inr ?g" by simp
  have n: "GetTrackPointsNo ?g = 4" by (simp add: GetTrackPointsNo_def gpxFile_def)
  have f: "length (firstSegmentPoints ?g) = 2" by (simp add: firstSegmentPoints_def gpxFile_def)
  show ?thesis
    using ImportGpx_counts [OF h] unfolding Let_def n by (simp add: f)
qed

text \<open>
  Claim C10, as it is worded, says the count is strictly greater than the number of
  track records whenever there is more than one track or segment. A file with two
  tracks, the second with an empty segment, gives the count 1 and a track of 1 point.
\<close>

theorem ImportGpx_counts_equal:
  "length (Tracks (gpxFile
      [\<lparr>Segments = [\<lparr>Points = [gpxPoint (Float64 1 0) (Float64 1 0)]\<rparr>]\<rparr>,
       \<lparr>Segments = [\<lparr>Points = []\<rparr>]\<rparr>])) = 2 \<and>
   fst (ImportGpx asciiToLower
      (\<lambda>n. Inr (gpxFile
        [\<lparr>Segments = [\<lparr>Points = [gpxPoint (Float64 1 0) (Float64 1 0)]\<rparr>]\<rparr>,
         \<lparr>Segments = [\<lparr>Points = []\<rparr>]\<rparr>]))
      zeroData ''ride.gpx'') = None \<and>
   sint (coordinateCount (smy (snd (ImportGpx asciiToLower
      (\<lambda>n. Inr (gpxFile
        [\<lparr>Segments = [\<lparr>Points = [gpxPoint (Float64 1 0) (Float64 1 0)]\<rparr>]\<rparr>,
         \<lparr>Segments = [\<lparr>Points = []\<rparr>]\<rparr>]))
      zeroData ''ride.gpx'')))) = 1 \<and>
   length (track (snd (ImportGpx asciiToLower
      (\<lambda>n. Inr (gpxFile
        [\<lparr>Segments = [\<lparr>Points = [gpxPoint (Float64 1 0) (Float64 1 0)]\<rparr>]\<rparr>,
         \<lparr>Segments = [\<lparr>Points = []\<rparr>]\<rparr>]))
      zeroData ''ride.gpx''))) = 1"
  by (simp add: ImportGpx_def Let_def zeroData_def gpxFile_def GetTrackPointsNo_def
      firstSegmentPoints_def)

section \<open>The fixed-point coordinates\<close>

lemma valof_nonneg_exp: "0 \<le> e \<Longrightarrow> valof (Float64 m e) = of_int (m * 2 ^ nat e)"
  by (simp add: valof_def power_int_def)

lemma valof_neg_exp: "e < 0 \<Longrightarrow> valof (Float64 m e) = of_int m / of_int (2 ^ nat (- e))"
  by (simp add: valof_def power_int_def field_simps)

lemma truncTowardZero_of_int: "truncTowardZero (of_int k) = k"
  by (simp add: truncTowardZero_def)

lemma truncTowardZero_divide:
  "0 < d \<Longrightarrow> truncTowardZero (of_int m / of_int d) = sgn m * (\<bar>m\<bar> div d)"
proof -
  assume d: "0 < d"
  show ?thesis
  proof (cases "m < 0")
    case True
    then have "(of_int m / of_int d :: real) < 0"
      using d by (simp add: divide_neg_pos)
    moreover have "- (of_int m / of_int d :: real) = of_int (- m) / of_int d" by simp
    ultimately have "truncTowardZero (of_int m / of_int d) = - \<lfloor>(of_int (- m) / of_int d :: real)\<rfloor>"
      by (simp only: truncTowardZero_def if_True)
    also have "\<dots> = - ((- m) div d)" by (simp only: floor_divide_of_int_eq)
    finally show ?thesis using True by simp
  next
    case False
    then have "\<not> (of_int m / of_int d :: real) < 0"
      using d by (simp add: not_less)
    then have "truncTowardZero (of_int m / of_int d) = \<lfloor>(of_int m / of_int d :: real)\<rfloor>"
      by (simp only: truncTowardZero_def if_False)
    also have "\<dots> = m div d" by (simp only: floor_divide_of_int_eq)
    finally show ?thesis using False by (cases "m = 0") simp_all
  qed
qed

lemma truncToInt_valof: "truncToInt x = truncTowardZero (valof x)"
proof (cases x)
  case (Float64 m e)
  show ?thesis
  proof (cases "0 \<le> e")
    case True
    then show ?thesis
      unfolding Float64 by (simp add: valof_nonneg_exp truncTowardZero_of_int truncToInt_def
          del: of_int_mult of_int_power)
  next
    case False
    then have e: "e < 0" by simp
    have "truncTowardZero (valof (Float64 m e)) = sgn m * (\<bar>m\<bar> div 2 ^ nat (- e))"
      unfolding valof_neg_exp [OF e] by (rule truncTowardZero_divide) simp
    then show ?thesis unfolding Float64 using e by (simp add: truncToInt_def)
  qed
qed

lemma abs_truncTowardZero_le: "real_of_int \<bar>truncTowardZero x\<bar> \<le> \<bar>x\<bar>"
proof (cases "x < 0")
  case True
  then have "0 \<le> \<lfloor>- x\<rfloor>" by simp
  moreover have "real_of_int \<lfloor>- x\<rfloor> \<le> - x" by (rule of_int_floor_le)
  ultimately show ?thesis using True by (simp add: truncTowardZero_def)
next
  case False
  then have "0 \<le> \<lfloor>x\<rfloor>" by simp
  moreover have "real_of_int \<lfloor>x\<rfloor> \<le> x" by (rule of_int_floor_le)
  ultimately show ?thesis using False by (simp add: truncTowardZero_def)
qed

lemma bitLength_lower: "0 < a \<Longrightarrow> 2 ^ (bitLength a - 1) \<le> a"
proof (induction a rule: bitLength.induct)
  case (1 n)
  show ?case
  proof (cases "n div 2 \<le> 0")
    case True
    with "1.prems" have "n = 1" by linarith
    then show ?thesis by (simp add: bitLength.simps)
  next
    case False
    then have pos: "0 < n div 2" by simp
    with "1.IH" "1.prems" have ih: "2 ^ (bitLength (n div 2) - 1) \<le> n div 2" by simp
    have bl: "bitLength n = Suc (bitLength (n div 2))"
      using "1.prems" by (subst bitLength.simps) simp
    have "0 < bitLength (n div 2)"
      using pos by (subst bitLength.simps) simp
    then have "(2::int) ^ (bitLength n - 1) = 2 * 2 ^ (bitLength (n div 2) - 1)"
      unfolding bl by (cases "bitLength (n div 2)") simp_all
    also have "\<dots> \<le> 2 * (n div 2)" using ih by simp
    also have "\<dots> \<le> n" by simp
    finally show ?thesis .
  qed
qed

lemma roundShift_le: "0 \<le> a \<Longrightarrow> roundShift a k \<le> a div 2 ^ k + 1"
  by (simp add: roundShift_def Let_def)

lemma roundShift_nonneg: "0 \<le> a \<Longrightarrow> 0 \<le> roundShift a k"
  by (simp add: roundShift_def Let_def pos_imp_zdiv_nonneg_iff)

text \<open>\<open>roundShift\<close> rounds to nearest, and a tie to the even neighbour.\<close>

lemma roundShift_nearest:
  assumes "0 \<le> a"
  shows "2 * \<bar>roundShift a k * 2 ^ k - a\<bar> \<le> 2 ^ k"
    and "2 * \<bar>roundShift a k * 2 ^ k - a\<bar> = 2 ^ k \<Longrightarrow> even (roundShift a k)"
proof -
  define q where "q = a div 2 ^ k"
  define r where "r = a mod 2 ^ k"
  have a: "a = q * 2 ^ k + r" unfolding q_def r_def by (rule div_mult_mod_eq [symmetric])
  have r: "0 \<le> r" "r < 2 ^ k" by (simp_all add: r_def)
  have rs: "roundShift a k = (if 2 * r < 2 ^ k then q else if 2 ^ k < 2 * r then q + 1
      else if even q then q else q + 1)"
    by (simp only: roundShift_def Let_def q_def r_def)
  have d0: "q * 2 ^ k - a = - r" and d1: "(q + 1) * 2 ^ k - a = 2 ^ k - r"
    by (simp_all add: a algebra_simps)
  show "2 * \<bar>roundShift a k * 2 ^ k - a\<bar> \<le> 2 ^ k"
    unfolding rs using r by (auto simp add: d0 d1 simp del: mult_cancel_right)
  show "2 * \<bar>roundShift a k * 2 ^ k - a\<bar> = 2 ^ k \<Longrightarrow> even (roundShift a k)"
    unfolding rs using r by (auto simp add: d0 d1 split: if_splits)
qed

lemma of_int_div_le: "real_of_int (a div d) \<le> real_of_int a / real_of_int d"
proof -
  have "real_of_int (a div d) = real_of_int \<lfloor>real_of_int a / real_of_int d\<rfloor>"
    by (simp only: floor_divide_of_int_eq)
  also have "\<dots> \<le> real_of_int a / real_of_int d" by (rule of_int_floor_le)
  finally show ?thesis .
qed

lemma roundToFloat64_bound:
  "\<bar>valof (roundToFloat64 m e)\<bar> \<le>
     \<bar>of_int m * 2 powi e\<bar> * (1 + 2 powi (- 52)) + 2 powi (- 1074)"
proof -
  define a where "a = \<bar>m\<bar>"
  define k where "k = max (int (bitLength a) - 53) (- 1074 - e)"
  define x :: real where "x = \<bar>of_int m * 2 powi e\<bar>"
  have x: "x = of_int a * 2 powi e"
    by (simp add: x_def a_def abs_mult)
  have x0: "0 \<le> x" by (simp add: x_def)
  have p52: "(0::real) \<le> 2 powi (- 52)" and p1074: "(0::real) \<le> 2 powi (- 1074)"
    by simp_all
  have unf: "roundToFloat64 m e =
      (if k \<le> 0 then Float64 m e else Float64 (sgn m * roundShift a (nat k)) (e + k))"
    by (simp only: roundToFloat64_def Let_def k_def a_def)
  show ?thesis
  proof (cases "k \<le> 0")
    case True
    then have "roundToFloat64 m e = Float64 m e"
      by (simp add: unf)
    then have "\<bar>valof (roundToFloat64 m e)\<bar> = x"
      by (simp add: valof_def x_def)
    also have "x \<le> x * (1 + 2 powi (- 52)) + 2 powi (- 1074)"
    proof -
      have "0 \<le> x * 2 powi (- 52)" using x0 p52 by (rule mult_nonneg_nonneg)
      with p1074 show ?thesis by (simp add: algebra_simps)
    qed
    finally show ?thesis unfolding x_def .
  next
    case False
    then have k: "0 < k" by simp
    define r where "r = roundShift a (nat k)"
    have res: "roundToFloat64 m e = Float64 (sgn m * r) (e + k)"
      using False by (simp add: unf r_def)
    have a0: "0 \<le> a" by (simp add: a_def)
    have r0: "0 \<le> r" unfolding r_def using a0 by (rule roundShift_nonneg)
    have "r \<le> a div 2 ^ nat k + 1" unfolding r_def using a0 by (rule roundShift_le)
    then have "real_of_int r \<le> real_of_int (a div 2 ^ nat k) + 1"
      by (metis of_int_le_iff of_int_add of_int_1)
    also have "\<dots> \<le> real_of_int a / real_of_int (2 ^ nat k) + 1"
      using of_int_div_le [of a "2 ^ nat k"] by simp
    finally have r_le: "real_of_int r \<le> real_of_int a / 2 ^ nat k + 1" by simp
    have pk: "(2::real) powi k = 2 ^ nat k"
      using k by (simp add: power_int_nonneg_exp)
    have pek: "(2::real) powi (e + k) = 2 powi e * 2 ^ nat k"
      by (simp add: power_int_add pk)
    have pe: "(0::real) < 2 powi e" by simp
    have "\<bar>valof (roundToFloat64 m e)\<bar> = \<bar>real_of_int (sgn m * r)\<bar> * 2 powi (e + k)"
      by (simp add: res valof_def abs_mult)
    also have "\<dots> \<le> real_of_int r * 2 powi (e + k)"
    proof -
      have "\<bar>sgn m * r\<bar> \<le> r" using r0 by (simp add: abs_mult abs_sgn_eq)
      then have "\<bar>real_of_int (sgn m * r)\<bar> \<le> real_of_int r"
        by (metis of_int_abs of_int_le_iff)
      then show ?thesis by (rule mult_right_mono) simp
    qed
    also have "\<dots> \<le> (real_of_int a / 2 ^ nat k + 1) * 2 powi (e + k)"
      using r_le by (rule mult_right_mono) simp
    also have "\<dots> = x + 2 powi (e + k)"
      by (simp add: pek x algebra_simps)
    also have "2 powi (e + k) \<le> x * 2 powi (- 52) + 2 powi (- 1074)"
    proof (cases "int (bitLength a) - 53 \<le> - 1074 - e")
      case True
      then have "e + k = - 1074" by (simp add: k_def)
      then have "(2::real) powi (e + k) = 2 powi (- 1074)" by simp
      moreover have "0 \<le> x * 2 powi (- 52)" using x0 p52 by (rule mult_nonneg_nonneg)
      ultimately show ?thesis by linarith
    next
      case False
      then have kk: "k = int (bitLength a) - 53" by (simp add: k_def)
      with k have bl: "53 < bitLength a" by simp
      then have apos: "0 < a"
        using a0 by (cases "a = 0") (simp_all add: bitLength.simps)
      then have "2 ^ (bitLength a - 1) \<le> a" by (rule bitLength_lower)
      then have le: "(2::real) ^ (bitLength a - 1) \<le> real_of_int a"
        by (metis of_int_le_iff of_int_power of_int_numeral)
      have ek: "e + k = (e + int (bitLength a - 1)) + (- 52)" using kk bl by simp
      have "(2::real) powi ((e + int (bitLength a - 1)) + (- 52)) =
          2 powi (e + int (bitLength a - 1)) * 2 powi (- 52)"
        by (rule power_int_add) simp
      moreover have "(2::real) powi (e + int (bitLength a - 1)) =
          2 powi e * 2 powi (int (bitLength a - 1))"
        by (rule power_int_add) simp
      ultimately have "(2::real) powi (e + k) = 2 powi e * 2 ^ (bitLength a - 1) * 2 powi (- 52)"
        unfolding ek by (simp only: power_int_of_nat)
      also have "\<dots> \<le> 2 powi e * real_of_int a * 2 powi (- 52)"
        using le pe by simp
      also have "\<dots> = x * 2 powi (- 52)" by (simp add: x)
      finally show ?thesis using p1074 by linarith
    qed
    finally show ?thesis unfolding x_def by (simp add: algebra_simps)
  qed
qed

lemma fmul_million_bound:
  assumes "\<bar>valof d\<bar> \<le> 180"
  shows "\<bar>valof (fmul d (Float64 1000000 0))\<bar> < 2 ^ 31"
proof -
  have prod: "real_of_int (mantissa d * 1000000) * 2 powi (exponent d + 0) = valof d * 1000000"
    by (simp add: valof_def)
  have "\<bar>valof d * 1000000\<bar> = \<bar>valof d\<bar> * 1000000" by (simp add: abs_mult)
  also have "\<dots> \<le> 180 * 1000000" using assms by simp
  finally have b: "\<bar>valof d * 1000000\<bar> \<le> 180000000" by simp
  have "\<bar>valof (fmul d (Float64 1000000 0))\<bar> \<le>
      \<bar>valof d * 1000000\<bar> * (1 + 2 powi (- 52)) + 2 powi (- 1074)"
    using roundToFloat64_bound [of "mantissa d * 1000000" "exponent d + 0"]
    unfolding prod by (simp add: fmul_def)
  also have "\<dots> \<le> 180000000 * (1 + 2 powi (- 52)) + 2 powi (- 1074)"
    using b by (intro add_right_mono mult_right_mono) simp_all
  also have "\<dots> < 2 ^ 31" by simp
  finally show ?thesis .
qed

lemma sint_toInt32:
  assumes "\<bar>valof x\<bar> < 2 ^ 31"
  shows "sint (toInt32 x) = truncTowardZero (valof x)"
proof -
  have "real_of_int \<bar>truncTowardZero (valof x)\<bar> < 2 ^ 31"
    using abs_truncTowardZero_le [of "valof x"] assms by linarith
  then have "\<bar>truncTowardZero (valof x)\<bar> < 2 ^ 31"
    by (metis of_int_less_iff of_int_power of_int_numeral)
  then have "- (2 ^ 31) \<le> truncTowardZero (valof x)" "truncTowardZero (valof x) < 2 ^ 31"
    by linarith+
  then have "signed_take_bit 31 (truncTowardZero (valof x)) = truncTowardZero (valof x)"
    by (rule signed_take_bit_int_eq_self)
  then show ?thesis
    by (simp add: toInt32_def truncToInt_valof signed_of_int)
qed

text \<open>
  Claim C1. For every \<open>float64\<close> degree value \<open>d\<close> of a valid latitude or longitude
  (at most 180 in absolute value), \<open>adjustGeoCoordinates d\<close>, read as a signed 32-bit
  integer, is the \<open>float64\<close> product of \<open>d\<close> and 1000000.0 truncated toward zero; it
  is not rounded. The literal 51.507351 gives 51507351 and -0.127758 gives -127758;
  8.12, whose product is the \<open>float64\<close> just below 8120000, gives 8119999.
\<close>

theorem adjustGeoCoordinates_truncates:
  "(\<bar>valof d\<bar> \<le> 180 \<longrightarrow>
      sint (adjustGeoCoordinates d) = truncTowardZero (valof (fmul d (Float64 1000000 0)))) \<and>
   adjustGeoCoordinates (float64OfDecimal 51507351 6) = 51507351 \<and>
   adjustGeoCoordinates (float64OfDecimal (- 127758) 6) = - 127758 \<and>
   sint (adjustGeoCoordinates (float64OfDecimal 812 2)) = 8119999"
proof (intro conjI impI)
  assume "\<bar>valof d\<bar> \<le> 180"
  then have "\<bar>valof (fmul d (Float64 1000000 0))\<bar> < 2 ^ 31" by (rule fmul_million_bound)
  then show "sint (adjustGeoCoordinates d) = truncTowardZero (valof (fmul d (Float64 1000000 0)))"
    unfolding adjustGeoCoordinates_def by (rule sint_toInt32)
next
  show "adjustGeoCoordinates (float64OfDecimal 51507351 6) = 51507351" by code_simp
next
  show "adjustGeoCoordinates (float64OfDecimal (- 127758) 6) = - 127758" by code_simp
next
  show "sint (adjustGeoCoordinates (float64OfDecimal 812 2)) = 8119999" by code_simp
qed

text \<open>The \<open>float64\<close> numbers of the three literals and two of the products, as
  mantissa and exponent.\<close>

lemma float64OfDecimal_examples:
  "float64OfDecimal 51507351 6 = Float64 7249015211576292 (- 47)"
  "float64OfDecimal (- 127758) 6 = Float64 (- 4602967049548799) (- 55)"
  "float64OfDecimal 812 2 = Float64 4571153621781053 (- 49)"
  by code_simp+

lemma fmul_examples:
  "fmul (Float64 7249015211576292 (- 47)) (Float64 1000000 0) = Float64 6913199626518528 (- 27)"
  "fmul (Float64 4571153621781053 (- 49)) (Float64 1000000 0) = Float64 8718783610879999 (- 30)"
  by code_simp+

text \<open>Each of the three is within half a unit in the last place of its literal.\<close>

lemma float64OfDecimal_examples_nearest:
  "\<bar>valof (Float64 7249015211576292 (- 47)) - 51507351 / 10 ^ 6\<bar> \<le> 2 powi (- 48)"
  "\<bar>valof (Float64 (- 4602967049548799) (- 55)) - (- 127758) / 10 ^ 6\<bar> \<le> 2 powi (- 56)"
  "\<bar>valof (Float64 4571153621781053 (- 49)) - 812 / 10 ^ 2\<bar> \<le> 2 powi (- 50)"
  by (simp_all add: valof_def)

text \<open>The theorem at the \<open>float64\<close> of the literal 51.507351.\<close>

theorem adjustGeoCoordinates_truncates_witness:
  "\<bar>valof (Float64 7249015211576292 (- 47))\<bar> \<le> 180 \<and>
   sint (adjustGeoCoordinates (Float64 7249015211576292 (- 47))) = 51507351 \<and>
   truncTowardZero (valof (fmul (Float64 7249015211576292 (- 47)) (Float64 1000000 0))) = 51507351"
proof -
  have h: "\<bar>valof (Float64 7249015211576292 (- 47))\<bar> \<le> 180"
    by (simp add: valof_def)
  have v: "sint (adjustGeoCoordinates (Float64 7249015211576292 (- 47))) = 51507351"
    by code_simp
  from adjustGeoCoordinates_truncates [of "Float64 7249015211576292 (- 47)"] h
  have "sint (adjustGeoCoordinates (Float64 7249015211576292 (- 47))) =
      truncTowardZero (valof (fmul (Float64 7249015211576292 (- 47)) (Float64 1000000 0)))"
    by blast
  with h v show ?thesis by simp
qed

end
